theory Spec2Isabelle
  imports Complex_Main "HOL-Library.Word"
begin

section \<open>Move values: checked machine arithmetic and aborts\<close>

text \<open>
  The ledger program is written in Move. Its integers are unsigned machine words whose
  arithmetic is checked: an addition or multiplication that leaves the range, a
  subtraction below zero and a narrowing cast of a value that does not fit all abort
  the transaction. An abort discards every effect of the transaction, so an entry
  function is modelled as a function into \<open>abort + result\<close>: \<open>Inl\<close> carries the abort
  and no state.
\<close>

type_synonym u8 = "8 word"
type_synonym u64 = "64 word"
type_synonym address = "256 word"

datatype abort =
    Abort nat            \<comment> \<open>\<open>abort n\<close> and a failed \<open>assert!(_, n)\<close>\<close>
  | ArithmeticError      \<comment> \<open>overflow, underflow or a cast out of range\<close>
  | MissingKey           \<comment> \<open>\<open>table::borrow\<close> of a key the table does not hold\<close>

definition bind_abort :: "abort + 'a \<Rightarrow> ('a \<Rightarrow> abort + 'b) \<Rightarrow> abort + 'b" where
  "bind_abort m f = (case m of Inl e \<Rightarrow> Inl e | Inr v \<Rightarrow> f v)"

definition add_u8 :: "u8 \<Rightarrow> u8 \<Rightarrow> abort + u8" where
  "add_u8 a b = (if unat a + unat b < 2 ^ 8 then Inr (a + b) else Inl ArithmeticError)"

definition add_u64 :: "u64 \<Rightarrow> u64 \<Rightarrow> abort + u64" where
  "add_u64 a b = (if unat a + unat b < 2 ^ 64 then Inr (a + b) else Inl ArithmeticError)"

definition mul_u64 :: "u64 \<Rightarrow> u64 \<Rightarrow> abort + u64" where
  "mul_u64 a b = (if unat a * unat b < 2 ^ 64 then Inr (a * b) else Inl ArithmeticError)"

text \<open>\<open>(x as u8)\<close> on a \<open>u64\<close>.\<close>

definition cast_u8 :: "u64 \<Rightarrow> abort + u8" where
  "cast_u8 x = (if unat x < 2 ^ 8 then Inr (ucast x) else Inl ArithmeticError)"

section \<open>Module \<open>pomodoro_game::catnft\<close>\<close>

text \<open>
  The object identifier \<open>id: UID\<close> of a \<open>CatNFT\<close> plays no part in any function below
  and is left out of the record.
\<close>

record CatNFT =
  cat_type :: u8
  hunger :: u8
  happiness :: u8
  health :: u8
  is_alive :: bool
  last_fed_time :: u64
  days_without_feeding :: u8

definition mint :: "u8 \<Rightarrow> CatNFT" where
  "mint ct = \<lparr> cat_type = ct, hunger = 50, happiness = 50, health = 100,
               is_alive = True, last_fed_time = 0, days_without_feeding = 0 \<rparr>"

definition get_stats :: "CatNFT \<Rightarrow> u8 \<times> u8 \<times> u8 \<times> bool" where
  "get_stats cat = (hunger cat, happiness cat, health cat, is_alive cat)"

text \<open>
  \<open>feed_cat(cat, food_value, clock)\<close>; the third argument is \<open>clock::timestamp_ms(clock)\<close>.
  The subtraction is guarded by \<open>hunger >= food_value\<close>, so it cannot abort.
\<close>

definition feed_cat :: "CatNFT \<Rightarrow> u8 \<Rightarrow> u64 \<Rightarrow> CatNFT" where
  "feed_cat cat food_value now =
     (let cat1 = (if hunger cat \<ge> food_value
                  then cat\<lparr>hunger := hunger cat - food_value\<rparr>
                  else cat\<lparr>hunger := 0\<rparr>)
      in cat1\<lparr>last_fed_time := now, days_without_feeding := 0\<rparr>)"

text \<open>
  \<open>play_with_cat(cat, happiness_boost)\<close>. The condition
  \<open>cat.happiness + happiness_boost <= 100\<close> adds two \<open>u8\<close> values before it compares,
  and that addition aborts above 255.
\<close>

definition play_with_cat :: "CatNFT \<Rightarrow> u8 \<Rightarrow> abort + CatNFT" where
  "play_with_cat cat happiness_boost =
     bind_abort (add_u8 (happiness cat) happiness_boost) (\<lambda>s.
       if s \<le> 100 then Inr (cat\<lparr>happiness := s\<rparr>)
       else Inr (cat\<lparr>happiness := 100\<rparr>))"

text \<open>
  \<open>update_stats(cat, clock)\<close>. The increments and decrements are guarded
  (\<open>hunger < 100\<close>, \<open>happiness > 0\<close>, \<open>health > 0\<close>) and cannot abort; the cast
  \<open>(days_passed as u8)\<close> can.
\<close>

definition death_rule :: "CatNFT \<Rightarrow> bool" where
  "death_rule cat \<longleftrightarrow>
     (hunger cat \<ge> 100 \<and> happiness cat = 0) \<or> days_without_feeding cat \<ge> 3"

definition update_stats :: "CatNFT \<Rightarrow> u64 \<Rightarrow> abort + CatNFT" where
  "update_stats cat current_time_ms =
     (let last_fed_time_ms = last_fed_time cat;
          days_passed_ms = (if current_time_ms > last_fed_time_ms
                            then current_time_ms - last_fed_time_ms else 0);
          days_passed = days_passed_ms div 86400000;
          days_without_feeding_u64 = (ucast (days_without_feeding cat) :: u64)
      in bind_abort
           (if days_passed > days_without_feeding_u64
            then bind_abort (cast_u8 days_passed)
                   (\<lambda>days_passed_u8. Inr (cat\<lparr>days_without_feeding := days_passed_u8\<rparr>))
            else Inr cat)
           (\<lambda>cat1.
              let cat2 = (if hunger cat1 < 100 then cat1\<lparr>hunger := hunger cat1 + 1\<rparr> else cat1);
                  cat3 = (if happiness cat2 > 0
                          then cat2\<lparr>happiness := happiness cat2 - 1\<rparr> else cat2);
                  cat4 = (if hunger cat3 > 70
                          then (if health cat3 > 0 then cat3\<lparr>health := health cat3 - 1\<rparr> else cat3)
                          else cat3);
                  cat5 = (if (hunger cat4 \<ge> 100 \<and> happiness cat4 = 0)
                             \<or> days_without_feeding cat4 \<ge> 3
                          then cat4\<lparr>is_alive := False, health := 0\<rparr> else cat4)
              in Inr cat5))"

text \<open>
  A pet's life as a sequence of ledger actions on one \<open>CatNFT\<close>. A transaction that
  aborts leaves the object as it was.
\<close>

datatype cat_action = Feed u8 u64 | Play u8 | Tick u64

fun act :: "CatNFT \<Rightarrow> cat_action \<Rightarrow> CatNFT" where
  "act cat (Feed food_value now) = feed_cat cat food_value now"
| "act cat (Play happiness_boost) =
     (case play_with_cat cat happiness_boost of Inl e \<Rightarrow> cat | Inr cat' \<Rightarrow> cat')"
| "act cat (Tick now) = (case update_stats cat now of Inl e \<Rightarrow> cat | Inr cat' \<Rightarrow> cat')"

text \<open>The states a pet passes through, one after each action.\<close>

fun trajectory :: "CatNFT \<Rightarrow> cat_action list \<Rightarrow> CatNFT list" where
  "trajectory cat [] = []"
| "trajectory cat (a # as) = act cat a # trajectory (act cat a) as"

text \<open>
  Auxiliary views of \<open>update_stats\<close>, used in the proofs only: the elapsed whole days,
  the three guarded stat changes, and the final death check.
\<close>

definition days_passed :: "CatNFT \<Rightarrow> u64 \<Rightarrow> u64" where
  "days_passed cat now =
     (if now > last_fed_time cat then now - last_fed_time cat else 0) div 86400000"

definition wear :: "CatNFT \<Rightarrow> CatNFT" where
  "wear cat1 =
     (let cat2 = (if hunger cat1 < 100 then cat1\<lparr>hunger := hunger cat1 + 1\<rparr> else cat1);
          cat3 = (if happiness cat2 > 0
                  then cat2\<lparr>happiness := happiness cat2 - 1\<rparr> else cat2);
          cat4 = (if hunger cat3 > 70
                  then (if health cat3 > 0 then cat3\<lparr>health := health cat3 - 1\<rparr> else cat3)
                  else cat3)
      in cat4)"

definition death_check :: "CatNFT \<Rightarrow> CatNFT" where
  "death_check cat4 =
     (if death_rule cat4 then cat4\<lparr>is_alive := False, health := 0\<rparr> else cat4)"

section \<open>The local cache: pet functions of \<open>gameState\<close>\<close>

text \<open>
  The client keeps a shadow of the pet in its persisted game state. JavaScript numbers
  are modelled as exact reals, and \<open>Date.now()\<close> is an argument. Each function reads the
  stored state with \<open>getGameState\<close> (which supplies default \<open>catStats\<close> where the
  stored state has none), changes \<open>catStats\<close> and saves the state back; the model maps
  the \<open>catStats\<close> read to the \<open>catStats\<close> stored afterwards, which is also the value
  returned. \<open>feedCat\<close> on a dead pet returns without saving.
\<close>

record catStats =
  hunger_js :: real
  happiness_js :: real
  isAlive :: bool
  lastFedTime :: real
  daysWithoutFeeding :: real

definition feedCat :: "real \<Rightarrow> real \<Rightarrow> catStats \<Rightarrow> catStats" where
  "feedCat foodValue now stats =
     (if \<not> isAlive stats then stats
      else stats\<lparr> hunger_js := max 0 (hunger_js stats - foodValue),
                  happiness_js := min 100 (happiness_js stats + of_int \<lfloor>foodValue / 2\<rfloor>),
                  lastFedTime := now,
                  daysWithoutFeeding := 0 \<rparr>)"

definition playWithCat :: "real \<Rightarrow> catStats \<Rightarrow> catStats" where
  "playWithCat happinessValue stats =
     stats\<lparr> happiness_js := min 100 (happiness_js stats + happinessValue) \<rparr>"

section \<open>Module \<open>pomodoro_game::game_item\<close>\<close>

record FoodItem =
  food_item_id :: u8
  hunger_value :: u8

record ToyItem =
  toy_item_id :: u8
  happiness_value :: u8

definition mint_toy :: "u8 \<Rightarrow> u8 \<Rightarrow> ToyItem" where
  "mint_toy item_id hv = \<lparr> toy_item_id = item_id, happiness_value = hv \<rparr>"

definition consume_food :: "FoodItem \<Rightarrow> u8 \<times> u8" where
  "consume_food food = (food_item_id food, hunger_value food)"

definition consume_toy :: "ToyItem \<Rightarrow> u8 \<times> u8" where
  "consume_toy toy = (toy_item_id toy, happiness_value toy)"

section \<open>Module \<open>pomodoro_game::pomodoro_game\<close>\<close>

definition EInsufficientPayment :: nat where "EInsufficientPayment = 1"
definition EInvalidItemId :: nat where "EInvalidItemId = 2"
definition ETreasuryInsufficient :: nat where "ETreasuryInsufficient = 3"
definition ENotAuthorized :: nat where "ENotAuthorized = 4"

record DailyEarning =
  date :: u64
  amount :: u64
  sessions :: u64

text \<open>\<open>oct_balance: Balance<OCT>\<close> is the value the balance holds.\<close>

record Treasury =
  oct_balance :: u64
  treasury_admin_address :: address
  total_rewards_paid :: u64
  total_users_rewarded :: u64

text \<open>A \<open>Table<K, V>\<close> is a finite map; \<open>table::borrow\<close> aborts on a missing key.\<close>

record GameState =
  food_prices :: "u8 \<rightharpoonup> u64"
  toy_prices :: "u8 \<rightharpoonup> u64"
  cat_prices :: "u8 \<rightharpoonup> u64"
  session_reward :: u64
  daily_earnings :: "address \<rightharpoonup> DailyEarning"
  burn_address :: address
  admin_address :: address

definition table_borrow :: "('k \<rightharpoonup> 'v) \<Rightarrow> 'k \<Rightarrow> abort + 'v" where
  "table_borrow t k = (case t k of None \<Rightarrow> Inl MissingKey | Some v \<Rightarrow> Inr v)"

text \<open>What a transaction hands over with \<open>transfer::public_transfer(object, recipient)\<close>.\<close>

datatype transfer =
    CoinTo address u64
  | CatTo address CatNFT
  | ToyTo address ToyItem

text \<open>\<open>init\<close>: the shared \<open>GameState\<close> and the empty \<open>Treasury\<close>, both owned by the deployer.\<close>

definition init :: "address \<Rightarrow> Treasury \<times> GameState" where
  "init sender =
     (\<lparr> oct_balance = 0, treasury_admin_address = sender,
        total_rewards_paid = 0, total_users_rewarded = 0 \<rparr>,
      \<lparr> food_prices = [1 \<mapsto> 1000000000, 2 \<mapsto> 2000000000, 3 \<mapsto> 3000000000,
                       4 \<mapsto> 4000000000, 5 \<mapsto> 5000000000],
        toy_prices = [6 \<mapsto> 10, 7 \<mapsto> 15, 8 \<mapsto> 20, 9 \<mapsto> 25, 10 \<mapsto> 30],
        cat_prices = [0 \<mapsto> 0, 1 \<mapsto> 50, 2 \<mapsto> 75, 3 \<mapsto> 150],
        session_reward = 1000000000,
        daily_earnings = Map.empty,
        burn_address = 0,
        admin_address = sender \<rparr>)"

text \<open>
  \<open>get_or_create_daily_earning\<close> returns a mutable reference into the table; the model
  returns the table with the (possibly new, possibly reset) record stored, and the record.
\<close>

definition get_or_create_daily_earning ::
  "GameState \<Rightarrow> address \<Rightarrow> u64 \<Rightarrow> GameState \<times> DailyEarning" where
  "get_or_create_daily_earning game_state user day =
     (let earning0 = (case daily_earnings game_state user of
                        None \<Rightarrow> \<lparr> date = day, amount = 0, sessions = 0 \<rparr>
                      | Some e \<Rightarrow> e);
          earning = (if date earning0 \<noteq> day
                     then earning0\<lparr> date := day, amount := 0, sessions := 0 \<rparr>
                     else earning0)
      in (game_state\<lparr> daily_earnings := (daily_earnings game_state)(user \<mapsto> earning) \<rparr>,
          earning))"

text \<open>
  \<open>complete_session(treasury, game_state, clock, ctx)\<close> with the clock's timestamp and the
  sender of the transaction as arguments. \<open>daily_cap - user_earning.amount\<close> and
  \<open>balance::split\<close> come after the checks that make them safe; the four additions at the
  end are checked.
\<close>

definition complete_session ::
  "Treasury \<Rightarrow> GameState \<Rightarrow> u64 \<Rightarrow> address \<Rightarrow> abort + (Treasury \<times> GameState \<times> transfer list)"
  where
  "complete_session treasury game_state current_time sender =
     (let recipient = sender;
          current_day = current_time div (24 * 60 * 60 * 1000);
          base_reward = session_reward game_state;
          daily_cap = 100000000000;
          (game_state1, user_earning) =
             get_or_create_daily_earning game_state recipient current_day
      in if amount user_earning \<ge> daily_cap then Inl (Abort 1)
         else if sessions user_earning \<ge> 100 then Inl (Abort 2)
         else
           let bonus = 0 in
           bind_abort (add_u64 base_reward bonus) (\<lambda>total_reward.
             let remaining_cap = daily_cap - amount user_earning;
                 final_reward = (if total_reward > remaining_cap
                                 then remaining_cap else total_reward)
             in if \<not> (oct_balance treasury \<ge> final_reward)
                then Inl (Abort ETreasuryInsufficient)
                else
                  let treasury1 = treasury\<lparr> oct_balance := oct_balance treasury - final_reward \<rparr>;
                      reward_coin = CoinTo recipient final_reward
                  in bind_abort (add_u64 (amount user_earning) final_reward) (\<lambda>amount1.
                     bind_abort (add_u64 (sessions user_earning) 1) (\<lambda>sessions1.
                     bind_abort (add_u64 (total_rewards_paid treasury1) final_reward) (\<lambda>paid1.
                     bind_abort (add_u64 (total_users_rewarded treasury1) 1) (\<lambda>rewarded1.
                       Inr (treasury1\<lparr> total_rewards_paid := paid1,
                                       total_users_rewarded := rewarded1 \<rparr>,
                            game_state1\<lparr> daily_earnings :=
                              (daily_earnings game_state1)
                                (recipient \<mapsto> user_earning\<lparr> amount := amount1,
                                                            sessions := sessions1 \<rparr>) \<rparr>,
                            [reward_coin])))))))"

definition get_food_hunger_value :: "u8 \<Rightarrow> u8" where
  "get_food_hunger_value item_id =
     (if item_id = 1 then 10 else if item_id = 2 then 15 else if item_id = 3 then 20
      else if item_id = 4 then 25 else if item_id = 5 then 50 else 0)"

definition get_toy_happiness_value :: "u8 \<Rightarrow> u8" where
  "get_toy_happiness_value item_id =
     (if item_id = 6 then 10 else if item_id = 7 then 15 else if item_id = 8 then 20
      else if item_id = 9 then 25 else if item_id = 10 then 30 else 0)"

text \<open>The loop \<open>while (i < amount) { mint and transfer a toy; i = i + 1 }\<close>.\<close>

function mint_toys :: "u64 \<Rightarrow> u64 \<Rightarrow> u8 \<Rightarrow> address \<Rightarrow> transfer list" where
  "mint_toys i amt item_id buyer =
     (if i < amt
      then ToyTo buyer (mint_toy item_id (get_toy_happiness_value item_id))
             # mint_toys (i + 1) amt item_id buyer
      else [])"
  by pat_completeness auto
termination
proof (relation "measure (\<lambda>(i, amt, item_id, buyer). unat amt - unat i)")
  show "wf (measure (\<lambda>(i, amt, item_id, buyer). unat amt - unat i))" by simp
next
  fix i amt :: u64 and item_id :: u8 and buyer :: address
  assume lt: "i < amt"
  then have a: "unat i < unat amt" by (simp add: word_less_nat_alt)
  moreover have "unat amt < 2 ^ 64" using unsigned_less [of amt, where 'a = nat] by simp
  ultimately have "unat i + unat (1 :: u64) < 2 ^ LENGTH(64)" by simp
  then have "unat (i + 1) = unat i + 1" by (simp add: unat_add_lem [THEN iffD1])
  with a show "((i + 1, amt, item_id, buyer), (i, amt, item_id, buyer))
        \<in> measure (\<lambda>(i, amt, item_id, buyer). unat amt - unat i)" by simp
qed

text \<open>
  \<open>purchase_item(game_state, payment, item_id, amount, ctx)\<close>; \<open>payment\<close> is the value of
  the coin handed in. The game state is borrowed immutably, so only transfers result.
\<close>

definition purchase_item ::
  "GameState \<Rightarrow> u64 \<Rightarrow> u8 \<Rightarrow> u64 \<Rightarrow> address \<Rightarrow> abort + transfer list" where
  "purchase_item game_state payment item_id amt sender =
     (let buyer = sender in
      bind_abort
        (if item_id \<ge> 1 \<and> item_id \<le> 5 then table_borrow (food_prices game_state) item_id
         else if item_id \<ge> 6 \<and> item_id \<le> 10 then table_borrow (toy_prices game_state) item_id
         else Inl (Abort EInvalidItemId))
        (\<lambda>price.
           bind_abort (mul_u64 price amt) (\<lambda>total_cost.
             let payment_value = payment in
             if \<not> (payment_value \<ge> total_cost) then Inl (Abort EInsufficientPayment)
             else Inr (CoinTo (admin_address game_state) payment
                       # (if item_id \<ge> 6 \<and> item_id \<le> 10
                          then mint_toys 0 amt item_id buyer else [])))))"

definition purchase_cat :: "GameState \<Rightarrow> u64 \<Rightarrow> u8 \<Rightarrow> address \<Rightarrow> abort + transfer list" where
  "purchase_cat game_state payment ct sender =
     (let buyer = sender in
      bind_abort (table_borrow (cat_prices game_state) ct) (\<lambda>price.
        let payment_value = payment in
        if \<not> (payment_value \<ge> price) then Inl (Abort EInsufficientPayment)
        else Inr [CoinTo (admin_address game_state) payment, CatTo buyer (mint ct)]))"

text \<open>The entry functions on a pet take the object by value and hand it back to the sender.\<close>

definition feed_cat_entry :: "CatNFT \<Rightarrow> FoodItem \<Rightarrow> u64 \<Rightarrow> address \<Rightarrow> abort + transfer list" where
  "feed_cat_entry cat food now sender =
     (let (item_id, hv) = consume_food food
      in Inr [CatTo sender (feed_cat cat hv now)])"

definition pet_cat :: "CatNFT \<Rightarrow> address \<Rightarrow> abort + transfer list" where
  "pet_cat cat sender =
     bind_abort (play_with_cat cat 5) (\<lambda>cat_mut. Inr [CatTo sender cat_mut])"

definition play_with_cat_toy :: "CatNFT \<Rightarrow> ToyItem \<Rightarrow> address \<Rightarrow> abort + transfer list" where
  "play_with_cat_toy cat toy sender =
     (let (item_id, hv) = consume_toy toy
      in bind_abort (play_with_cat cat hv) (\<lambda>cat_mut. Inr [CatTo sender cat_mut]))"

definition update_cat_stats :: "CatNFT \<Rightarrow> u64 \<Rightarrow> address \<Rightarrow> abort + transfer list" where
  "update_cat_stats cat now sender =
     bind_abort (update_stats cat now) (\<lambda>cat_mut. Inr [CatTo sender cat_mut])"

definition admin_set_session_reward :: "GameState \<Rightarrow> u64 \<Rightarrow> address \<Rightarrow> abort + GameState" where
  "admin_set_session_reward game_state new_reward sender =
     (if sender \<noteq> admin_address game_state then Inl (Abort 100)
      else Inr (game_state\<lparr> session_reward := new_reward \<rparr>))"

definition admin_set_item_price ::
  "GameState \<Rightarrow> u8 \<Rightarrow> u64 \<Rightarrow> address \<Rightarrow> abort + GameState" where
  "admin_set_item_price game_state item_id price sender =
     (if sender \<noteq> admin_address game_state then Inl (Abort 101)
      else if item_id \<le> 5
      then Inr (game_state\<lparr> food_prices := (food_prices game_state)(item_id \<mapsto> price) \<rparr>)
      else Inr (game_state\<lparr> toy_prices := (toy_prices game_state)(item_id \<mapsto> price) \<rparr>))"

text \<open>\<open>fund_treasury\<close>: \<open>coin::put\<close> joins the coin's balance to the treasury's, a checked sum.\<close>

definition fund_treasury :: "Treasury \<Rightarrow> u64 \<Rightarrow> address \<Rightarrow> abort + Treasury" where
  "fund_treasury treasury payment sender =
     (if sender \<noteq> treasury_admin_address treasury then Inl (Abort ENotAuthorized)
      else bind_abort (add_u64 (oct_balance treasury) payment) (\<lambda>b.
             Inr (treasury\<lparr> oct_balance := b \<rparr>)))"

definition get_treasury_balance :: "Treasury \<Rightarrow> u64" where
  "get_treasury_balance treasury = oct_balance treasury"

definition get_treasury_stats :: "Treasury \<Rightarrow> u64 \<times> u64 \<times> address" where
  "get_treasury_stats treasury =
     (total_rewards_paid treasury, total_users_rewarded treasury,
      treasury_admin_address treasury)"

subsection \<open>Transactions on the shared objects\<close>

text \<open>
  The two shared objects and every call the module offers. A transaction names its
  sender and one call; owned objects (coins by their value, pets, items) travel in the
  call. The ledger runs transactions one after another; one that aborts changes nothing
  and transfers nothing.
\<close>

type_synonym ledger = "Treasury \<times> GameState"

datatype call =
    CompleteSession u64
  | PurchaseItem u64 u8 u64
  | PurchaseCat u64 u8
  | FeedCat CatNFT FoodItem u64
  | PetCat CatNFT
  | PlayWithCatToy CatNFT ToyItem
  | UpdateCatStats CatNFT u64
  | AdminSetSessionReward u64
  | AdminSetItemPrice u8 u64
  | FundTreasury u64

fun execute :: "ledger \<Rightarrow> address \<Rightarrow> call \<Rightarrow> abort + (ledger \<times> transfer list)" where
  "execute (tr, gs) sender (CompleteSession now) =
     bind_abort (complete_session tr gs now sender) (\<lambda>(tr', gs', out). Inr ((tr', gs'), out))"
| "execute (tr, gs) sender (PurchaseItem payment item_id amt) =
     bind_abort (purchase_item gs payment item_id amt sender) (\<lambda>out. Inr ((tr, gs), out))"
| "execute (tr, gs) sender (PurchaseCat payment ct) =
     bind_abort (purchase_cat gs payment ct sender) (\<lambda>out. Inr ((tr, gs), out))"
| "execute (tr, gs) sender (FeedCat cat food now) =
     bind_abort (feed_cat_entry cat food now sender) (\<lambda>out. Inr ((tr, gs), out))"
| "execute (tr, gs) sender (PetCat cat) =
     bind_abort (pet_cat cat sender) (\<lambda>out. Inr ((tr, gs), out))"
| "execute (tr, gs) sender (PlayWithCatToy cat toy) =
     bind_abort (play_with_cat_toy cat toy sender) (\<lambda>out. Inr ((tr, gs), out))"
| "execute (tr, gs) sender (UpdateCatStats cat now) =
     bind_abort (update_cat_stats cat now sender) (\<lambda>out. Inr ((tr, gs), out))"
| "execute (tr, gs) sender (AdminSetSessionReward new_reward) =
     bind_abort (admin_set_session_reward gs new_reward sender) (\<lambda>gs'. Inr ((tr, gs'), []))"
| "execute (tr, gs) sender (AdminSetItemPrice item_id price) =
     bind_abort (admin_set_item_price gs item_id price sender) (\<lambda>gs'. Inr ((tr, gs'), []))"
| "execute (tr, gs) sender (FundTreasury payment) =
     bind_abort (fund_treasury tr payment sender) (\<lambda>tr'. Inr ((tr', gs), []))"

definition transact :: "ledger \<Rightarrow> address \<times> call \<Rightarrow> ledger \<times> transfer list" where
  "transact l tx = (case execute l (fst tx) (snd tx) of Inl e \<Rightarrow> (l, []) | Inr r \<Rightarrow> r)"

fun run :: "ledger \<Rightarrow> (address \<times> call) list \<Rightarrow> ledger" where
  "run l [] = l"
| "run l (tx # txs) = run (fst (transact l tx)) txs"

text \<open>
  The rewards a user is paid by the user's own \<open>complete_session\<close> transactions in a run,
  in order, one entry for each transaction that did not abort.
\<close>

fun is_claim_of :: "address \<Rightarrow> address \<times> call \<Rightarrow> bool" where
  "is_claim_of u (sender, CompleteSession now) = (sender = u)"
| "is_claim_of u (sender, c) = False"

fun coins_to :: "address \<Rightarrow> transfer list \<Rightarrow> u64 list" where
  "coins_to u [] = []"
| "coins_to u (CoinTo r v # out) = (if r = u then v # coins_to u out else coins_to u out)"
| "coins_to u (t # out) = coins_to u out"

fun session_rewards :: "address \<Rightarrow> ledger \<Rightarrow> (address \<times> call) list \<Rightarrow> u64 list" where
  "session_rewards u l [] = []"
| "session_rewards u l (tx # txs) =
     (if is_claim_of u tx then coins_to u (snd (transact l tx)) else [])
     @ session_rewards u (fst (transact l tx)) txs"

text \<open>Every \<open>complete_session\<close> of user \<open>u\<close> in the run carries a timestamp of day \<open>d\<close>.\<close>

fun claims_in_day :: "address \<Rightarrow> u64 \<Rightarrow> (address \<times> call) list \<Rightarrow> bool" where
  "claims_in_day u d [] = True"
| "claims_in_day u d ((sender, CompleteSession now) # txs) =
     ((sender = u \<longrightarrow> now div 86400000 = d) \<and> claims_in_day u d txs)"
| "claims_in_day u d (tx # txs) = claims_in_day u d txs"

text \<open>The invariant of a user's \<open>DailyEarning\<close> record, if there is one.\<close>

definition earning_within_limits :: "GameState \<Rightarrow> address \<Rightarrow> bool" where
  "earning_within_limits gs u =
     (case daily_earnings gs u of
        None \<Rightarrow> True
      | Some e \<Rightarrow> unat (amount e) \<le> 100000000000 \<and> unat (sessions e) \<le> 100)"

text \<open>
  The payout as the specification words it: with the record the claim works on (after the
  day rollover), \<open>min(sessionReward + bonus, dailyCap - amountEarnedToday)\<close>, \<open>bonus = 0\<close>,
  over the natural numbers.
\<close>

definition spec_payout :: "GameState \<Rightarrow> address \<Rightarrow> u64 \<Rightarrow> nat" where
  "spec_payout gs u now =
     (let earning = snd (get_or_create_daily_earning gs u (now div 86400000))
      in min (unat (session_reward gs) + 0) (100000000000 - unat (amount earning)))"

section \<open>The claim orchestrator: \<open>executeWithRetry\<close> and \<open>useCompleteSession\<close>\<close>

text \<open>
  A JavaScript error as the retry logic reads it: \<open>canRetry\<close> is \<open>Some False\<close> exactly
  when \<open>error.canRetry === false\<close>, \<open>errorType\<close> is the string property if there is one.
  A thrown value that is falsy is \<open>None\<close>.
\<close>

record js_error =
  canRetry :: "bool option"
  errorType :: "string option"

definition shouldRetryTransaction :: "js_error option \<Rightarrow> bool" where
  "shouldRetryTransaction error =
     (case error of
        None \<Rightarrow> False
      | Some err \<Rightarrow>
          if canRetry err = Some False then False
          else if errorType err = Some ''rejected'' then False
          else if errorType err = Some ''insufficient_funds''
                  \<or> errorType err = Some ''insufficient_gas'' then False
          else if errorType err = Some ''network_error''
                  \<or> errorType err = Some ''timeout''
                  \<or> errorType err = Some ''gas_error'' then True
          else canRetry err \<noteq> Some False)"

text \<open>
  What the client does is recorded as a trace of events. Waiting (\<open>setTimeout\<close>) is the
  event \<open>Sleep ms\<close>; time itself is not modelled.
\<close>

datatype event =
    SignAndExecute        \<comment> \<open>\<open>signAndExecuteTransaction\<close> is called: the transaction is submitted\<close>
  | WaitForTransaction    \<comment> \<open>\<open>client.waitForTransaction\<close> is called on the digest\<close>
  | UpdateLocalState      \<comment> \<open>coins and sessions of the local cache are updated and saved\<close>
  | OnRetry nat           \<comment> \<open>the \<open>onRetry\<close> callback\<close>
  | Sleep nat

text \<open>
  \<open>executeWithRetry(transactionFn, maxRetries, retryDelay, onRetry)\<close>: the \<open>for\<close> loop over
  \<open>attempt\<close>, started at \<open>attempt = 0\<close> with \<open>lastError = null\<close>. The transaction function
  acts on the trace and either resolves (\<open>Inr\<close>) or rejects (\<open>Inl\<close>).
\<close>

function executeWithRetry_loop ::
  "(event list \<Rightarrow> (js_error option + 'r) \<times> event list) \<Rightarrow> nat \<Rightarrow> nat
     \<Rightarrow> (nat \<Rightarrow> nat \<Rightarrow> js_error option \<Rightarrow> event list \<Rightarrow> event list) option
     \<Rightarrow> nat \<Rightarrow> js_error option \<Rightarrow> event list \<Rightarrow> (js_error option + 'r) \<times> event list"
  where
  "executeWithRetry_loop transactionFn maxRetries retryDelay onRetry attempt lastError trace =
     (if attempt \<le> maxRetries
      then (case transactionFn trace of
              (Inr result, trace1) \<Rightarrow> (Inr result, trace1)
            | (Inl error, trace1) \<Rightarrow>
                if \<not> shouldRetryTransaction error then (Inl error, trace1)
                else if attempt < maxRetries
                then let trace2 = (case onRetry of
                                     None \<Rightarrow> trace1
                                   | Some f \<Rightarrow> f (attempt + 1) maxRetries error trace1);
                         trace3 = trace2 @ [Sleep (retryDelay * (attempt + 1))]
                     in executeWithRetry_loop transactionFn maxRetries retryDelay onRetry
                          (attempt + 1) error trace3
                else executeWithRetry_loop transactionFn maxRetries retryDelay onRetry
                          (attempt + 1) error trace1)
      else (Inl lastError, trace))"
  by pat_completeness auto
termination
  by (relation "measure (\<lambda>(f, maxRetries, d, r, attempt, e, t). Suc maxRetries - attempt)") auto

definition executeWithRetry ::
  "(event list \<Rightarrow> (js_error option + 'r) \<times> event list) \<Rightarrow> nat \<Rightarrow> nat
     \<Rightarrow> (nat \<Rightarrow> nat \<Rightarrow> js_error option \<Rightarrow> event list \<Rightarrow> event list) option
     \<Rightarrow> event list \<Rightarrow> (js_error option + 'r) \<times> event list" where
  "executeWithRetry transactionFn maxRetries retryDelay onRetry trace =
     executeWithRetry_loop transactionFn maxRetries retryDelay onRetry 0 None trace"

text \<open>
  How one submission ends for the promise around it. \<open>SignFailed\<close>: the wallet calls
  \<open>onError\<close>. \<open>WaitFailed\<close>: the wallet calls \<open>onSuccess\<close> (the transaction is
  executed) and \<open>waitForTransaction\<close> throws, or what it returns cannot be read.
  \<open>BookkeepingFailed\<close>: the confirmation arrives, the handler updates and saves the
  local cache, and a later statement of the same \<open>try\<close> block throws: \<open>toFixed\<close> on
  stored coins that are not a number, a \<open>TypeError\<close>, which carries neither \<open>canRetry\<close>
  nor \<open>errorType\<close>. \<open>Confirmed\<close>: the handler runs to \<open>resolve(result)\<close>. The
  environment is a function from the number of earlier submissions to the answer.
\<close>

datatype answer =
    SignFailed "js_error option"
  | WaitFailed "js_error option"
  | BookkeepingFailed
  | Confirmed

definition submissions :: "event list \<Rightarrow> nat" where
  "submissions trace = count_list trace SignAndExecute"

text \<open>The delays in a trace, in order.\<close>

fun sleeps :: "event list \<Rightarrow> nat list" where
  "sleeps [] = []"
| "sleeps (Sleep ms # trace) = ms # sleeps trace"
| "sleeps (ev # trace) = sleeps trace"

text \<open>
  \<open>executeTransaction\<close> of \<open>useCompleteSession\<close>: the promise around
  \<open>signAndExecuteTransaction\<close>. Everything from \<open>waitForTransaction\<close> to
  \<open>resolve(result)\<close> is in one \<open>try\<close> block whose \<open>catch\<close> rejects the promise with
  what was thrown. After the update of the local cache, \<open>getTreasuryBalance\<close>,
  \<open>addTransaction\<close> and the balance query catch their own errors.
\<close>

definition executeTransaction ::
  "(nat \<Rightarrow> answer) \<Rightarrow> event list \<Rightarrow> (js_error option + unit) \<times> event list" where
  "executeTransaction env trace =
     (let trace1 = trace @ [SignAndExecute] in
      case env (submissions trace) of
        SignFailed error \<Rightarrow> (Inl error, trace1)
      | WaitFailed waitError \<Rightarrow> (Inl waitError, trace1 @ [WaitForTransaction])
      | BookkeepingFailed \<Rightarrow>
          (Inl (Some \<lparr> canRetry = None, errorType = None \<rparr>),
           trace1 @ [WaitForTransaction, UpdateLocalState])
      | Confirmed \<Rightarrow> (Inr (), trace1 @ [WaitForTransaction, UpdateLocalState]))"

text \<open>
  \<open>completeSession\<close> from the point where the transaction is built: the call
  \<open>executeWithRetry(executeTransaction, 2, 2000, onRetry)\<close>. The pre-flight checks and the
  build come before any submission and are not part of the model.
\<close>

definition completeSession :: "(nat \<Rightarrow> answer) \<Rightarrow> (js_error option + unit) \<times> event list" where
  "completeSession env =
     executeWithRetry (executeTransaction env) 2 2000
       (Some (\<lambda>attempt maxRetries error trace. trace @ [OnRetry attempt])) []"

text \<open>
  Views of one answer: the events of the attempt, what the promise rejects with, and
  whether the retry loop goes round again after it.
\<close>

definition attempt_events :: "answer \<Rightarrow> event list" where
  "attempt_events a = (case a of SignFailed e \<Rightarrow> [SignAndExecute]
                               | WaitFailed e \<Rightarrow> [SignAndExecute, WaitForTransaction]
                               | BookkeepingFailed \<Rightarrow>
                                   [SignAndExecute, WaitForTransaction, UpdateLocalState]
                               | Confirmed \<Rightarrow>
                                   [SignAndExecute, WaitForTransaction, UpdateLocalState])"

definition attempt_error :: "answer \<Rightarrow> js_error option" where
  "attempt_error a = (case a of SignFailed e \<Rightarrow> e
                              | WaitFailed e \<Rightarrow> e
                              | BookkeepingFailed \<Rightarrow> Some \<lparr> canRetry = None, errorType = None \<rparr>
                              | Confirmed \<Rightarrow> None)"

definition retried :: "answer \<Rightarrow> bool" where
  "retried a = (case a of SignFailed e \<Rightarrow> shouldRetryTransaction e
                        | WaitFailed e \<Rightarrow> shouldRetryTransaction e
                        | BookkeepingFailed \<Rightarrow>
                            shouldRetryTransaction (Some \<lparr> canRetry = None, errorType = None \<rparr>)
                        | Confirmed \<Rightarrow> False)"

text \<open>
  The answer that ends a run of \<open>completeSession\<close>: the first of the answers to the
  first, second and third submission that is not retried, the third if there is none.
\<close>

definition final_answer :: "(nat \<Rightarrow> answer) \<Rightarrow> answer" where
  "final_answer env =
     (if retried (env 0) then (if retried (env 1) then env 2 else env 1) else env 0)"

text \<open>
  Auxiliary views of \<open>complete_session\<close>: the record a claim works on (after the
  rollover) and the reward it computes, used in the proofs only; and, read from the
  stored table itself, the amount and the sessions a user has on record for a given
  day, which are 0 when the user has no record or a record of another day.
\<close>

definition claim_record :: "GameState \<Rightarrow> address \<Rightarrow> u64 \<Rightarrow> DailyEarning" where
  "claim_record gs u now = snd (get_or_create_daily_earning gs u (now div 86400000))"

definition final_reward :: "GameState \<Rightarrow> address \<Rightarrow> u64 \<Rightarrow> u64" where
  "final_reward gs u now =
     (let remaining_cap = 100000000000 - amount (claim_record gs u now)
      in if session_reward gs > remaining_cap then remaining_cap else session_reward gs)"

definition earned_on :: "GameState \<Rightarrow> address \<Rightarrow> u64 \<Rightarrow> nat" where
  "earned_on gs u d =
     (case daily_earnings gs u of
        None \<Rightarrow> 0 | Some e \<Rightarrow> if date e = d then unat (amount e) else 0)"

definition sessions_on :: "GameState \<Rightarrow> address \<Rightarrow> u64 \<Rightarrow> nat" where
  "sessions_on gs u d =
     (case daily_earnings gs u of
        None \<Rightarrow> 0 | Some e \<Rightarrow> if date e = d then unat (sessions e) else 0)"

text \<open>
  Ledgers for the examples: the state right after \<open>init\<close> by deployer 1, a treasury
  funded with 5 OCT, and a state in which user 7 has used up day 19675.
\<close>

definition funded_treasury :: Treasury where
  "funded_treasury = \<lparr> oct_balance = 5000000000, treasury_admin_address = 1,
        total_rewards_paid = 0, total_users_rewarded = 0 \<rparr>"

definition fresh_state :: GameState where
  "fresh_state = snd (init 1)"

definition exhausted_state :: GameState where
  "exhausted_state = fresh_state\<lparr> daily_earnings :=
     [7 \<mapsto> \<lparr> date = 19675, amount = 100000000000, sessions = 100 \<rparr>] \<rparr>"

text \<open>
  An environment for the orchestrator: the first submission is executed but the wait for
  its confirmation throws a plain error; every later submission is confirmed.
\<close>

definition wait_fails_once :: "nat \<Rightarrow> answer" where
  "wait_fails_once n =
     (if n = 0 then WaitFailed (Some \<lparr> canRetry = None, errorType = None \<rparr>) else Confirmed)"

text \<open>
  An environment in which every submission is executed and confirmed and the bookkeeping
  of the handler throws each time.
\<close>

definition bookkeeping_always_fails :: "nat \<Rightarrow> answer" where
  "bookkeeping_always_fails n = BookkeepingFailed"

section \<open>Facts about machine words\<close>

lemma unat_u8_lt: "unat (d :: u8) < 256"
  using unsigned_less [of d, where 'a = nat] by simp

lemma unat_u64_lt: "unat (d :: u64) < 18446744073709551616"
  using unsigned_less [of d, where 'a = nat] by simp

lemma unat_ucast_u8_u64: "unat (ucast (d :: u8) :: u64) = unat d"
proof -
  have "unat d < 2 ^ 64" using unat_u8_lt [of d] by simp
  then show ?thesis by (simp add: unsigned_ucast_eq take_bit_nat_eq_self)
qed

section \<open>The pet on the ledger: decay, death, feeding and play\<close>

lemma days_passed_unat:
  "unat (days_passed cat now) = (unat now - unat (last_fed_time cat)) div 86400000"
  by (auto simp: days_passed_def unat_div unat_sub word_less_nat_alt word_le_nat_alt)

lemma update_stats_alt:
  "update_stats cat now =
     (if days_passed cat now > ucast (days_without_feeding cat)
      then (if unat (days_passed cat now) < 256
            then Inr (death_check (wear (cat\<lparr>days_without_feeding := ucast (days_passed cat now)\<rparr>)))
            else Inl ArithmeticError)
      else Inr (death_check (wear cat)))"
proof -
  have tail: "\<And>cat1.
     (let cat2 = (if hunger cat1 < 100 then cat1\<lparr>hunger := hunger cat1 + 1\<rparr> else cat1);
          cat3 = (if happiness cat2 > 0
                  then cat2\<lparr>happiness := happiness cat2 - 1\<rparr> else cat2);
          cat4 = (if hunger cat3 > 70
                  then (if health cat3 > 0 then cat3\<lparr>health := health cat3 - 1\<rparr> else cat3)
                  else cat3);
          cat5 = (if (hunger cat4 \<ge> 100 \<and> happiness cat4 = 0)
                     \<or> days_without_feeding cat4 \<ge> 3
                  then cat4\<lparr>is_alive := False, health := 0\<rparr> else cat4)
      in (Inr cat5 :: abort + CatNFT)) = Inr (death_check (wear cat1))"
    by (simp only: death_check_def wear_def death_rule_def Let_def)
  show ?thesis
    unfolding update_stats_def
    apply (simp only: tail)
    apply (simp add: days_passed_def Let_def bind_abort_def cast_u8_def)
    done
qed

lemma wear_alive [simp]: "is_alive (wear cat) = is_alive cat"
  by (simp add: wear_def Let_def)

lemma wear_days [simp]: "days_without_feeding (wear cat) = days_without_feeding cat"
  by (simp add: wear_def Let_def)

lemma death_check_rule [simp]: "death_rule (death_check cat) = death_rule cat"
  by (simp add: death_check_def death_rule_def)

lemma death_check_alive: "is_alive (death_check cat) \<longleftrightarrow> is_alive cat \<and> \<not> death_rule cat"
  by (simp add: death_check_def)

lemma death_check_health: "death_rule cat \<Longrightarrow> health (death_check cat) = 0"
  by (simp add: death_check_def)

lemma death_check_days [simp]:
  "days_without_feeding (death_check cat) = days_without_feeding cat"
  by (simp add: death_check_def)

lemma update_stats_Inr_cases:
  assumes "update_stats cat now = Inr cat'"
  obtains c where "cat' = death_check (wear c)" "is_alive c = is_alive cat"
    "unat (days_without_feeding c) =
       max (unat (days_without_feeding cat)) (unat (days_passed cat now))"
proof (cases "days_passed cat now > ucast (days_without_feeding cat)")
  case True
  with assms have lt: "unat (days_passed cat now) < 256"
    and eq: "cat' = death_check (wear (cat\<lparr>days_without_feeding := ucast (days_passed cat now)\<rparr>))"
    by (auto simp: update_stats_alt split: if_splits)
  have "unat (ucast (days_passed cat now) :: u8) = unat (days_passed cat now)"
    using lt by (simp add: unsigned_ucast_eq take_bit_nat_eq_self)
  moreover have "unat (days_without_feeding cat) < unat (days_passed cat now)"
    using True by (simp add: word_less_nat_alt unat_ucast_u8_u64)
  ultimately show ?thesis
    using eq that [of "cat\<lparr>days_without_feeding := ucast (days_passed cat now)\<rparr>"] by simp
next
  case False
  with assms have eq: "cat' = death_check (wear cat)" by (simp add: update_stats_alt)
  have "unat (days_passed cat now) \<le> unat (days_without_feeding cat)"
    using False by (simp add: word_less_nat_alt unat_ucast_u8_u64)
  then show ?thesis using eq that [of cat] by simp
qed

lemma update_stats_abort_iff:
  "update_stats cat now = Inl ArithmeticError \<longleftrightarrow> 256 \<le> unat (days_passed cat now)"
  using unat_u8_lt [of "days_without_feeding cat"]
  by (auto simp add: update_stats_alt word_less_nat_alt unat_ucast_u8_u64)

lemma update_stats_alive:
  "update_stats cat now = Inr cat' \<Longrightarrow> is_alive cat' \<longleftrightarrow> is_alive cat \<and> \<not> death_rule cat'"
  by (erule update_stats_Inr_cases) (auto simp: death_check_alive)

lemma update_stats_dead:
  "update_stats cat now = Inr cat' \<Longrightarrow> death_rule cat' \<Longrightarrow> \<not> is_alive cat' \<and> health cat' = 0"
  by (erule update_stats_Inr_cases) (auto simp: death_check_alive death_check_health)

lemma feed_cat_alive [simp]: "is_alive (feed_cat cat v t) = is_alive cat"
  by (simp add: feed_cat_def Let_def)

lemma play_with_cat_alive: "play_with_cat cat b = Inr cat' \<Longrightarrow> is_alive cat' = is_alive cat"
  by (auto simp: play_with_cat_def bind_abort_def split: sum.splits if_splits)

lemma act_alive: "is_alive cat \<Longrightarrow> \<not> death_rule (act cat a) \<Longrightarrow> is_alive (act cat a)"
  by (cases a) (auto simp: play_with_cat_alive update_stats_alive split: sum.splits)

lemma trajectory_alive:
  "is_alive cat \<Longrightarrow> \<forall>c \<in> set (trajectory cat as). \<not> death_rule c
     \<Longrightarrow> \<forall>c \<in> set (trajectory cat as). is_alive c"
proof (induction as arbitrary: cat)
  case Nil
  then show ?case by simp
next
  case (Cons a as)
  from Cons.prems have "is_alive (act cat a)" by (simp add: act_alive)
  with Cons show ?case by simp
qed

lemma act_dead: "\<not> is_alive cat \<Longrightarrow> \<not> is_alive (act cat a)"
  by (cases a) (auto simp: play_with_cat_alive update_stats_alive split: sum.splits)

lemma trajectory_dead:
  "\<not> is_alive cat \<Longrightarrow> \<forall>c \<in> set (trajectory cat as). \<not> is_alive c"
proof (induction as arbitrary: cat)
  case Nil
  then show ?case by simp
next
  case (Cons a as)
  from Cons.prems have "\<not> is_alive (act cat a)" by (rule act_dead)
  with Cons.IH show ?case by simp
qed

lemma four_days_dead:
  assumes "(unat now - unat (last_fed_time cat)) div 86400000 = 4"
  shows "\<exists>cat'. update_stats cat now = Inr cat' \<and> \<not> is_alive cat' \<and> health cat' = 0"
proof -
  have d: "unat (days_passed cat now) = 4" using assms by (simp add: days_passed_unat)
  then have "update_stats cat now \<noteq> Inl ArithmeticError" by (simp add: update_stats_abort_iff)
  moreover have "\<And>e. update_stats cat now = Inl e \<Longrightarrow> e = ArithmeticError"
    by (auto simp: update_stats_alt split: if_splits)
  ultimately obtain cat' where r: "update_stats cat now = Inr cat'"
    by (cases "update_stats cat now") auto
  from r obtain c where c: "cat' = death_check (wear c)"
     "unat (days_without_feeding c) =
        max (unat (days_without_feeding cat)) (unat (days_passed cat now))"
    by (rule update_stats_Inr_cases)
  have "unat (days_without_feeding c) \<ge> 4" using c d by simp
  then have "days_without_feeding (wear c) \<ge> 3" by (simp add: word_le_nat_alt)
  then have "death_rule (wear c)" by (simp add: death_rule_def)
  then show ?thesis using r c by (simp add: death_check_alive death_check_health)
qed

text \<open>
  Claim C5, as the code has it. After an \<open>update_stats\<close> that completes, a pet for which
  the rule \<open>(hunger \<ge> 100 \<and> happiness = 0) \<or> days_without_feeding \<ge> 3\<close> holds is dead
  with health 0; for a pet that was alive before the tick, being dead with health 0
  afterwards is equivalent to the rule. A pet is alive after the tick exactly when it
  was alive before and the rule does not hold on its new stats: a pet that was dead
  before the tick is dead after it, whatever the rule says, and stays dead along every
  sequence of feed, play and decay actions. Along every such sequence from an alive pet
  on which the rule never holds, the pet stays alive. A pet whose last feeding lies four
  whole days back is dead with health 0 after one tick.
\<close>

theorem decay_tick_death_rule:
  "(\<forall>cat'. update_stats cat now = Inr cat' \<longrightarrow>
        (death_rule cat' \<longrightarrow> \<not> is_alive cat' \<and> health cat' = 0)
      \<and> (is_alive cat \<longrightarrow> ((\<not> is_alive cat' \<and> health cat' = 0) \<longleftrightarrow> death_rule cat'))
      \<and> (is_alive cat' \<longleftrightarrow> is_alive cat \<and> \<not> death_rule cat')
      \<and> (\<not> is_alive cat \<longrightarrow> \<not> is_alive cat'))
   \<and> (\<not> is_alive cat \<longrightarrow> (\<forall>c \<in> set (trajectory cat as). \<not> is_alive c))
   \<and> (is_alive cat \<and> (\<forall>c \<in> set (trajectory cat as). \<not> death_rule c)
        \<longrightarrow> (\<forall>c \<in> set (trajectory cat as). is_alive c))
   \<and> ((unat now - unat (last_fed_time cat)) div 86400000 = 4
        \<longrightarrow> (\<exists>cat'. update_stats cat now = Inr cat' \<and> \<not> is_alive cat' \<and> health cat' = 0))"
proof (intro conjI allI impI)
  fix cat' assume "update_stats cat now = Inr cat'" "death_rule cat'"
  then show "\<not> is_alive cat'" "health cat' = 0" by (simp_all add: update_stats_dead)
next
  fix cat' assume r: "update_stats cat now = Inr cat'" and a: "is_alive cat"
  show "(\<not> is_alive cat' \<and> health cat' = 0) \<longleftrightarrow> death_rule cat'"
    using update_stats_alive [OF r] update_stats_dead [OF r] a by blast
next
  fix cat' assume r: "update_stats cat now = Inr cat'"
  show "is_alive cat' \<longleftrightarrow> is_alive cat \<and> \<not> death_rule cat'"
    by (rule update_stats_alive [OF r])
next
  fix cat' assume r: "update_stats cat now = Inr cat'" and d: "\<not> is_alive cat"
  show "\<not> is_alive cat'" using update_stats_alive [OF r] d by blast
next
  assume "\<not> is_alive cat"
  then show "\<forall>c \<in> set (trajectory cat as). \<not> is_alive c" by (rule trajectory_dead)
next
  assume "is_alive cat \<and> (\<forall>c \<in> set (trajectory cat as). \<not> death_rule c)"
  then show "\<forall>c \<in> set (trajectory cat as). is_alive c" using trajectory_alive by blast
next
  assume "(unat now - unat (last_fed_time cat)) div 86400000 = 4"
  then show "\<exists>cat'. update_stats cat now = Inr cat' \<and> \<not> is_alive cat' \<and> health cat' = 0"
    by (rule four_days_dead)
qed

text \<open>
  Without the condition that the pet was alive before the tick the equivalence of C5
  fails. A minted pet that is ticked after three days dies; fed then and ticked again a
  second later it is still dead with health 0, although the rule does not hold for it.
\<close>

theorem dead_pet_stays_dead_counterexample:
  "trajectory (mint 1) [Tick 259200000, Feed 20 259200000]
     = [\<lparr> cat_type = 1, hunger = 51, happiness = 49, health = 0, is_alive = False,
           last_fed_time = 0, days_without_feeding = 3 \<rparr>,
        \<lparr> cat_type = 1, hunger = 31, happiness = 49, health = 0, is_alive = False,
           last_fed_time = 259200000, days_without_feeding = 0 \<rparr>]
   \<and> update_stats \<lparr> cat_type = 1, hunger = 31, happiness = 49, health = 0, is_alive = False,
           last_fed_time = 259200000, days_without_feeding = 0 \<rparr> 259201000
     = Inr \<lparr> cat_type = 1, hunger = 32, happiness = 48, health = 0, is_alive = False,
           last_fed_time = 259200000, days_without_feeding = 0 \<rparr>
   \<and> \<not> death_rule \<lparr> cat_type = 1, hunger = 32, happiness = 48, health = 0, is_alive = False,
           last_fed_time = 259200000, days_without_feeding = 0 \<rparr>"
  by (simp add: update_stats_def Let_def bind_abort_def death_rule_def mint_def cast_u8_def
      feed_cat_def)

text \<open>
  The theorem of C5 at a freshly minted pet: ticked four days after the epoch it dies,
  and fed, played with and ticked within the first seconds it stays alive; and at the
  pet that died after three days and was fed: ticked, fed and played with, it stays
  dead.
\<close>

theorem decay_tick_death_rule_witness:
  "is_alive (mint 1)
   \<and> (unat (345600000 :: u64) - unat (last_fed_time (mint 1))) div 86400000 = 4
   \<and> (\<exists>cat'. update_stats (mint 1) 345600000 = Inr cat' \<and> \<not> is_alive cat' \<and> health cat' = 0
          \<and> death_rule cat')
   \<and> list_all (\<lambda>c. \<not> death_rule c) (trajectory (mint 1) [Feed 20 1000, Play 10, Tick 2000])
   \<and> list_all is_alive (trajectory (mint 1) [Feed 20 1000, Play 10, Tick 2000])
   \<and> \<not> is_alive \<lparr> cat_type = 1, hunger = 31, happiness = 49, health = 0, is_alive = False,
           last_fed_time = 259200000, days_without_feeding = 0 \<rparr>
   \<and> update_stats \<lparr> cat_type = 1, hunger = 31, happiness = 49, health = 0, is_alive = False,
           last_fed_time = 259200000, days_without_feeding = 0 \<rparr> 259201000
     = Inr \<lparr> cat_type = 1, hunger = 32, happiness = 48, health = 0, is_alive = False,
           last_fed_time = 259200000, days_without_feeding = 0 \<rparr>
   \<and> \<not> is_alive \<lparr> cat_type = 1, hunger = 32, happiness = 48, health = 0, is_alive = False,
           last_fed_time = 259200000, days_without_feeding = 0 \<rparr>
   \<and> list_all (\<lambda>c. \<not> is_alive c)
        (trajectory \<lparr> cat_type = 1, hunger = 31, happiness = 49, health = 0, is_alive = False,
           last_fed_time = 259200000, days_without_feeding = 0 \<rparr>
           [Tick 259201000, Feed 20 259202000, Play 10])"
proof -
  let ?as = "[Feed 20 1000, Play 10, Tick 2000]"
  let ?dead = "\<lparr> cat_type = 1, hunger = 31, happiness = 49, health = 0, is_alive = False,
           last_fed_time = 259200000, days_without_feeding = 0 \<rparr>"
  let ?dead' = "\<lparr> cat_type = 1, hunger = 32, happiness = 48, health = 0, is_alive = False,
           last_fed_time = 259200000, days_without_feeding = 0 \<rparr>"
  let ?bs = "[Tick 259201000, Feed 20 259202000, Play 10]"
  note main = decay_tick_death_rule [of "mint 1" 345600000 ?as]
  note late = decay_tick_death_rule [of ?dead 259201000 ?bs]
  have alive: "is_alive (mint 1)" by (simp add: mint_def)
  have days: "(unat (345600000 :: u64) - unat (last_fed_time (mint 1))) div 86400000 = 4"
    by (simp add: mint_def)
  have traj: "trajectory (mint 1) ?as =
      [\<lparr> cat_type = 1, hunger = 30, happiness = 50, health = 100, is_alive = True,
             last_fed_time = 1000, days_without_feeding = 0 \<rparr>,
       \<lparr> cat_type = 1, hunger = 30, happiness = 60, health = 100, is_alive = True,
             last_fed_time = 1000, days_without_feeding = 0 \<rparr>,
       \<lparr> cat_type = 1, hunger = 31, happiness = 59, health = 100, is_alive = True,
             last_fed_time = 1000, days_without_feeding = 0 \<rparr>]"
    by (simp add: mint_def feed_cat_def play_with_cat_def add_u8_def bind_abort_def
        update_stats_def Let_def cast_u8_def)
  have safe: "\<forall>c \<in> set (trajectory (mint 1) ?as). \<not> death_rule c"
    unfolding traj by (simp add: death_rule_def)
  from main alive safe have a: "\<forall>c \<in> set (trajectory (mint 1) ?as). is_alive c" by blast
  from main days obtain cat' where r: "update_stats (mint 1) 345600000 = Inr cat'"
    and d: "\<not> is_alive cat'" "health cat' = 0" by blast
  from main r d alive have "death_rule cat'" by blast
  with r d alive days safe a have first:
    "is_alive (mint 1)
     \<and> (unat (345600000 :: u64) - unat (last_fed_time (mint 1))) div 86400000 = 4
     \<and> (\<exists>cat'. update_stats (mint 1) 345600000 = Inr cat' \<and> \<not> is_alive cat' \<and> health cat' = 0
          \<and> death_rule cat')
     \<and> list_all (\<lambda>c. \<not> death_rule c) (trajectory (mint 1) ?as)
     \<and> list_all is_alive (trajectory (mint 1) ?as)"
    unfolding list_all_iff by blast
  have dead: "\<not> is_alive ?dead" by simp
  have tick: "update_stats ?dead 259201000 = Inr ?dead'"
    by (simp add: update_stats_def Let_def bind_abort_def cast_u8_def)
  from late tick dead have still: "\<not> is_alive ?dead'" by blast
  from late dead have "\<forall>c \<in> set (trajectory ?dead ?bs). \<not> is_alive c" by blast
  then have always: "list_all (\<lambda>c. \<not> is_alive c) (trajectory ?dead ?bs)"
    unfolding list_all_iff .
  from first dead tick still always show ?thesis by blast
qed

text \<open>
  Claim C10. \<open>update_stats\<close> aborts exactly when 256 or more whole days have passed since
  \<open>last_fed_time\<close>: that count then exceeds every stored \<open>days_without_feeding\<close>, and
  the cast to \<open>u8\<close> fails. A freshly minted pet has \<open>last_fed_time = 0\<close>, so its decay
  tick aborts at every clock value from day 256 after the epoch on.
\<close>

theorem update_stats_aborts_beyond_255_days:
  "(update_stats cat now = Inl ArithmeticError
      \<longleftrightarrow> 256 \<le> (unat now - unat (last_fed_time cat)) div 86400000)
   \<and> (256 \<le> (unat now - unat (last_fed_time cat)) div 86400000
        \<longrightarrow> unat (days_without_feeding cat) < (unat now - unat (last_fed_time cat)) div 86400000)
   \<and> (256 * 86400000 \<le> unat now \<longrightarrow> update_stats (mint ct) now = Inl ArithmeticError)"
proof (intro conjI impI)
  show "update_stats cat now = Inl ArithmeticError
      \<longleftrightarrow> 256 \<le> (unat now - unat (last_fed_time cat)) div 86400000"
    by (simp add: update_stats_abort_iff days_passed_unat)
next
  assume "256 \<le> (unat now - unat (last_fed_time cat)) div 86400000"
  then show "unat (days_without_feeding cat) < (unat now - unat (last_fed_time cat)) div 86400000"
    using unat_u8_lt [of "days_without_feeding cat"] by simp
next
  assume "256 * 86400000 \<le> unat now"
  then have "256 \<le> (unat now - unat (last_fed_time (mint ct))) div 86400000"
    by (simp add: mint_def)
  then show "update_stats (mint ct) now = Inl ArithmeticError"
    by (simp add: update_stats_abort_iff days_passed_unat)
qed

text \<open>The theorem of C10 at a pet minted and ticked at a present-day clock value.\<close>

theorem update_stats_aborts_beyond_255_days_witness:
  "256 * 86400000 \<le> unat (1700000000000 :: u64)
   \<and> 256 \<le> (unat (1700000000000 :: u64) - unat (last_fed_time (mint 1))) div 86400000
   \<and> update_stats (mint 1) 1700000000000 = Inl ArithmeticError"
proof -
  have a: "256 * 86400000 \<le> unat (1700000000000 :: u64)" by simp
  have b: "256 \<le> (unat (1700000000000 :: u64) - unat (last_fed_time (mint 1))) div 86400000"
    by (simp add: mint_def)
  from a b update_stats_aborts_beyond_255_days [of "mint 1" 1700000000000 1]
  show ?thesis by blast
qed

text \<open>
  Claim C6 says that feeding and playing leave a dead pet as it is. On the ledger a dead
  pet that is fed gets a new hunger, feeding time and day count, and one that is played
  with gets a new happiness; the local \<open>playWithCat\<close> raises the happiness of a dead
  pet as well.
\<close>

theorem fed_dead_pet_counterexample:
  "\<not> is_alive \<lparr> cat_type = 1, hunger = 100, happiness = 0, health = 0, is_alive = False,
        last_fed_time = 0, days_without_feeding = 3 \<rparr>
   \<and> feed_cat \<lparr> cat_type = 1, hunger = 100, happiness = 0, health = 0, is_alive = False,
        last_fed_time = 0, days_without_feeding = 3 \<rparr> 20 345600000
     = \<lparr> cat_type = 1, hunger = 80, happiness = 0, health = 0, is_alive = False,
        last_fed_time = 345600000, days_without_feeding = 0 \<rparr>
   \<and> play_with_cat \<lparr> cat_type = 1, hunger = 100, happiness = 0, health = 0, is_alive = False,
        last_fed_time = 0, days_without_feeding = 3 \<rparr> 15
     = Inr \<lparr> cat_type = 1, hunger = 100, happiness = 15, health = 0, is_alive = False,
        last_fed_time = 0, days_without_feeding = 3 \<rparr>
   \<and> playWithCat 15 \<lparr> hunger_js = 100, happiness_js = 0, isAlive = False,
        lastFedTime = 86400000, daysWithoutFeeding = 3 \<rparr>
     = \<lparr> hunger_js = 100, happiness_js = 15, isAlive = False,
        lastFedTime = 86400000, daysWithoutFeeding = 3 \<rparr>"
  by (simp add: feed_cat_def play_with_cat_def add_u8_def bind_abort_def playWithCat_def)

lemma unat_add_u8: "unat a + unat b \<le> 255 \<Longrightarrow> unat (a + b :: u8) = unat a + unat b"
  by (simp add: unat_add_lem [THEN iffD1])

lemma play_with_cat_Inr:
  "play_with_cat cat b = Inr cat' \<longleftrightarrow>
     unat (happiness cat) + unat b \<le> 255 \<and>
     cat' = cat\<lparr>happiness := (if unat (happiness cat) + unat b \<le> 100
                               then happiness cat + b else 100)\<rparr>"
proof (cases "unat (happiness cat) + unat b \<le> 255")
  case True
  then have "add_u8 (happiness cat) b = Inr (happiness cat + b)" by (simp add: add_u8_def)
  moreover have "happiness cat + b \<le> 100 \<longleftrightarrow> unat (happiness cat) + unat b \<le> 100"
    using True by (simp add: word_le_nat_alt unat_add_u8)
  ultimately show ?thesis using True by (auto simp: play_with_cat_def bind_abort_def)
next
  case False
  then show ?thesis by (simp add: play_with_cat_def bind_abort_def add_u8_def)
qed

lemma play_with_cat_Inl:
  "(\<exists>e. play_with_cat cat b = Inl e) \<longleftrightarrow> 255 < unat (happiness cat) + unat b"
proof (cases "unat (happiness cat) + unat b \<le> 255")
  case True
  then have "\<exists>c. play_with_cat cat b = Inr c" by (simp add: play_with_cat_Inr)
  with True show ?thesis by auto
next
  case False
  then show ?thesis by (simp add: play_with_cat_def bind_abort_def add_u8_def)
qed

text \<open>
  Claim C6, as the code has it. The local cache's \<open>feedCat\<close> returns a dead pet
  unchanged. The ledger's \<open>feed_cat\<close> and \<open>play_with_cat\<close> do not look at \<open>is_alive\<close>:
  on a dead pet \<open>feed_cat\<close> still sets hunger, feeding time and day count and leaves
  the rest (so the pet stays dead), and is a no-op only when nothing of that changes;
  \<open>play_with_cat\<close> still sets the happiness to \<open>min(100, happiness + boost)\<close>, and aborts
  when that sum exceeds 255.
\<close>

theorem dead_pet_feed_play:
  "(\<not> isAlive stats \<longrightarrow> feedCat foodValue now stats = stats)
   \<and> (\<not> is_alive cat \<longrightarrow>
        feed_cat cat v t = cat\<lparr> hunger := (if v \<le> hunger cat then hunger cat - v else 0),
                                 last_fed_time := t, days_without_feeding := 0 \<rparr>
      \<and> (feed_cat cat v t = cat \<longleftrightarrow>
            (v = 0 \<or> hunger cat = 0) \<and> last_fed_time cat = t \<and> days_without_feeding cat = 0)
      \<and> (\<forall>cat'. play_with_cat cat b = Inr cat' \<longleftrightarrow>
            unat (happiness cat) + unat b \<le> 255 \<and>
            cat' = cat\<lparr> happiness := (if unat (happiness cat) + unat b \<le> 100
                                       then happiness cat + b else 100) \<rparr>)
      \<and> ((\<exists>e. play_with_cat cat b = Inl e) \<longleftrightarrow> 255 < unat (happiness cat) + unat b))"
proof (intro conjI impI allI)
  assume "\<not> isAlive stats"
  then show "feedCat foodValue now stats = stats" by (simp add: feedCat_def)
next
  show "feed_cat cat v t = cat\<lparr> hunger := (if v \<le> hunger cat then hunger cat - v else 0),
                                 last_fed_time := t, days_without_feeding := 0 \<rparr>"
    by (simp add: feed_cat_def Let_def)
next
  show "feed_cat cat v t = cat \<longleftrightarrow>
            (v = 0 \<or> hunger cat = 0) \<and> last_fed_time cat = t \<and> days_without_feeding cat = 0"
  proof (cases "v \<le> hunger cat")
    case True
    have "feed_cat cat v t = cat \<longleftrightarrow> hunger cat - v = hunger cat \<and> last_fed_time cat = t \<and> days_without_feeding cat = 0"
      using True by (cases cat) (auto simp add: feed_cat_def Let_def)
    moreover have "hunger cat - v = hunger cat \<longleftrightarrow> v = 0" by simp
    moreover have "hunger cat = 0 \<Longrightarrow> v = 0" using True by simp
    ultimately show ?thesis by blast
  next
    case False
    have "feed_cat cat v t = cat \<longleftrightarrow> hunger cat = 0 \<and> last_fed_time cat = t \<and> days_without_feeding cat = 0"
      using False by (cases cat) (auto simp add: feed_cat_def Let_def)
    moreover have "v \<noteq> 0" using False by auto
    ultimately show ?thesis by blast
  qed
next
  fix cat'
  show "play_with_cat cat b = Inr cat' \<longleftrightarrow>
            unat (happiness cat) + unat b \<le> 255 \<and>
            cat' = cat\<lparr> happiness := (if unat (happiness cat) + unat b \<le> 100
                                       then happiness cat + b else 100) \<rparr>"
    by (rule play_with_cat_Inr)
next
  show "(\<exists>e. play_with_cat cat b = Inl e) \<longleftrightarrow> 255 < unat (happiness cat) + unat b"
    by (rule play_with_cat_Inl)
qed

text \<open>The theorem of C6 at a pet that died after three days without food.\<close>

theorem dead_pet_feed_play_witness:
  "\<not> isAlive \<lparr> hunger_js = 100, happiness_js = 0, isAlive = False,
                 lastFedTime = 86400000, daysWithoutFeeding = 3 \<rparr>
   \<and> feedCat 20 345600000 \<lparr> hunger_js = 100, happiness_js = 0, isAlive = False,
                 lastFedTime = 86400000, daysWithoutFeeding = 3 \<rparr>
       = \<lparr> hunger_js = 100, happiness_js = 0, isAlive = False,
                 lastFedTime = 86400000, daysWithoutFeeding = 3 \<rparr>
   \<and> \<not> is_alive \<lparr> cat_type = 1, hunger = 100, happiness = 0, health = 0, is_alive = False,
                 last_fed_time = 0, days_without_feeding = 3 \<rparr>
   \<and> feed_cat \<lparr> cat_type = 1, hunger = 100, happiness = 0, health = 0, is_alive = False,
                 last_fed_time = 0, days_without_feeding = 3 \<rparr> 20 345600000
       \<noteq> \<lparr> cat_type = 1, hunger = 100, happiness = 0, health = 0, is_alive = False,
                 last_fed_time = 0, days_without_feeding = 3 \<rparr>"
proof -
  let ?S = "\<lparr> hunger_js = 100, happiness_js = 0, isAlive = False,
                 lastFedTime = 86400000, daysWithoutFeeding = 3 \<rparr>"
  let ?C = "\<lparr> cat_type = 1, hunger = 100, happiness = 0, health = 0, is_alive = False,
                 last_fed_time = 0, days_without_feeding = 3 \<rparr>"
  note main = dead_pet_feed_play [of ?S 20 345600000 ?C 20 345600000 15]
  have s: "\<not> isAlive ?S" by simp
  have c: "\<not> is_alive ?C" by simp
  have n: "\<not> ((20 = (0 :: u8) \<or> hunger ?C = 0) \<and> last_fed_time ?C = 345600000
               \<and> days_without_feeding ?C = 0)" by simp
  from main s have "feedCat 20 345600000 ?S = ?S" by blast
  moreover from main c n have "feed_cat ?C 20 345600000 \<noteq> ?C" by blast
  ultimately show ?thesis using s c by blast
qed

lemma feed_cat_hunger_nat:
  "unat (hunger (feed_cat cat v t)) = unat (hunger cat) - unat v"
proof (cases "v \<le> hunger cat")
  case True
  then have "unat (hunger cat - v) = unat (hunger cat) - unat v" by (simp add: unat_sub)
  then show ?thesis using True by (simp add: feed_cat_def Let_def)
next
  case False
  then have "unat (hunger cat) < unat v" by (simp add: word_le_nat_alt)
  then show ?thesis using False by (simp add: feed_cat_def Let_def)
qed

lemma feed_cat_hunger:
  "int (unat (hunger (feed_cat cat v t))) = max 0 (int (unat (hunger cat)) - int (unat v))"
proof -
  have "int (a - b) = max 0 (int a - int b)" for a b :: nat by linarith
  then show ?thesis by (simp only: feed_cat_hunger_nat)
qed

text \<open>
  Claim C7, as the code has it. On an alive pet the local cache's \<open>feedCat\<close> sets
  \<open>hunger = max(0, hunger - foodValue)\<close>,
  \<open>happiness = min(100, happiness + floor(foodValue / 2))\<close>, \<open>lastFedTime = now\<close> and
  \<open>daysWithoutFeeding = 0\<close>; from 50 and 50 a food value of 20 gives 30 and 60. The
  ledger's \<open>feed_cat\<close> sets hunger, feeding time and day count in the same way and leaves
  the happiness as it was; from 50 and 50 a food value of 20 gives 30 and 50.
\<close>

theorem feed_alive_pet:
  "(isAlive stats \<longrightarrow>
      feedCat foodValue now stats
        = stats\<lparr> hunger_js := max 0 (hunger_js stats - foodValue),
                  happiness_js := min 100 (happiness_js stats + of_int \<lfloor>foodValue / 2\<rfloor>),
                  lastFedTime := now, daysWithoutFeeding := 0 \<rparr>)
   \<and> (isAlive stats \<and> hunger_js stats = 50 \<and> happiness_js stats = 50 \<longrightarrow>
        hunger_js (feedCat 20 now stats) = 30 \<and> happiness_js (feedCat 20 now stats) = 60)
   \<and> (is_alive cat \<longrightarrow>
        int (unat (hunger (feed_cat cat v t))) = max 0 (int (unat (hunger cat)) - int (unat v))
      \<and> happiness (feed_cat cat v t) = happiness cat
      \<and> last_fed_time (feed_cat cat v t) = t
      \<and> days_without_feeding (feed_cat cat v t) = 0
      \<and> health (feed_cat cat v t) = health cat
      \<and> is_alive (feed_cat cat v t))
   \<and> (is_alive cat \<and> hunger cat = 50 \<and> happiness cat = 50 \<longrightarrow>
        hunger (feed_cat cat 20 t) = 30 \<and> happiness (feed_cat cat 20 t) = 50)"
proof (intro conjI impI)
  assume "isAlive stats"
  then show "feedCat foodValue now stats
        = stats\<lparr> hunger_js := max 0 (hunger_js stats - foodValue),
                  happiness_js := min 100 (happiness_js stats + of_int \<lfloor>foodValue / 2\<rfloor>),
                  lastFedTime := now, daysWithoutFeeding := 0 \<rparr>"
    by (simp add: feedCat_def)
next
  assume a: "isAlive stats \<and> hunger_js stats = 50 \<and> happiness_js stats = 50"
  then show "hunger_js (feedCat 20 now stats) = 30" by (simp add: feedCat_def)
  from a show "happiness_js (feedCat 20 now stats) = 60" by (simp add: feedCat_def)
next
  show "int (unat (hunger (feed_cat cat v t))) = max 0 (int (unat (hunger cat)) - int (unat v))"
    by (rule feed_cat_hunger)
  show "happiness (feed_cat cat v t) = happiness cat" by (simp add: feed_cat_def Let_def)
  show "last_fed_time (feed_cat cat v t) = t" by (simp add: feed_cat_def Let_def)
  show "days_without_feeding (feed_cat cat v t) = 0" by (simp add: feed_cat_def Let_def)
  show "health (feed_cat cat v t) = health cat" by (simp add: feed_cat_def Let_def)
next
  assume "is_alive cat"
  then show "is_alive (feed_cat cat v t)" by simp
next
  assume a: "is_alive cat \<and> hunger cat = 50 \<and> happiness cat = 50"
  then show "hunger (feed_cat cat 20 t) = 30" by (simp add: feed_cat_def Let_def)
  from a show "happiness (feed_cat cat 20 t) = 50" by (simp add: feed_cat_def Let_def)
qed

text \<open>
  Claim C7 promises happiness 60 after feeding 20 to a pet at hunger 50, happiness 50.
  On the ledger the happiness stays 50.
\<close>

theorem feed_keeps_ledger_happiness_counterexample:
  "is_alive (mint 1) \<and> hunger (mint 1) = 50 \<and> happiness (mint 1) = 50
   \<and> hunger (feed_cat (mint 1) 20 1000) = 30
   \<and> happiness (feed_cat (mint 1) 20 1000) = 50
   \<and> happiness (feed_cat (mint 1) 20 1000) \<noteq> 60"
  by (simp add: mint_def feed_cat_def)

text \<open>The theorem of C7 at the scenario's pet, in the local cache and on the ledger.\<close>

theorem feed_alive_pet_witness:
  "isAlive \<lparr> hunger_js = 50, happiness_js = 50, isAlive = True,
              lastFedTime = 500, daysWithoutFeeding = 0 \<rparr>
   \<and> feedCat 20 1000 \<lparr> hunger_js = 50, happiness_js = 50, isAlive = True,
              lastFedTime = 500, daysWithoutFeeding = 0 \<rparr>
       = \<lparr> hunger_js = 30, happiness_js = 60, isAlive = True,
              lastFedTime = 1000, daysWithoutFeeding = 0 \<rparr>
   \<and> is_alive (mint 1) \<and> hunger (mint 1) = 50 \<and> happiness (mint 1) = 50
   \<and> hunger (feed_cat (mint 1) 20 1000) = 30 \<and> happiness (feed_cat (mint 1) 20 1000) = 50"
proof -
  let ?S = "\<lparr> hunger_js = 50, happiness_js = 50, isAlive = True,
              lastFedTime = 500, daysWithoutFeeding = 0 \<rparr>"
  note main = feed_alive_pet [of ?S 20 1000 "mint 1" 20 1000]
  have s: "isAlive ?S \<and> hunger_js ?S = 50 \<and> happiness_js ?S = 50" by simp
  have c: "is_alive (mint 1) \<and> hunger (mint 1) = 50 \<and> happiness (mint 1) = 50"
    by (simp add: mint_def)
  from main s have "feedCat 20 1000 ?S
        = ?S\<lparr> hunger_js := max 0 (hunger_js ?S - 20),
               happiness_js := min 100 (happiness_js ?S + of_int \<lfloor>20 / 2 :: real\<rfloor>),
               lastFedTime := 1000, daysWithoutFeeding := 0 \<rparr>" by blast
  then have f: "feedCat 20 1000 ?S = \<lparr> hunger_js = 30, happiness_js = 60, isAlive = True,
              lastFedTime = 1000, daysWithoutFeeding = 0 \<rparr>" by simp
  from main c have "hunger (feed_cat (mint 1) 20 1000) = 30 \<and> happiness (feed_cat (mint 1) 20 1000) = 50"
    by blast
  with s c f show ?thesis by blast
qed

section \<open>The claim orchestrator: what a failed confirmation wait leads to\<close>

text \<open>
  The loop is unfolded one round at a time: \<open>one_round\<close> is a round of
  \<open>executeWithRetry\<close> around \<open>executeTransaction\<close>, and \<open>completeSession_run\<close> is the
  whole run of at most three rounds.
\<close>

declare executeWithRetry_loop.simps [simp del]

lemma shouldRetry_plain: "shouldRetryTransaction (Some \<lparr> canRetry = None, errorType = None \<rparr>)"
  by (simp add: shouldRetryTransaction_def)

lemma shouldRetry_char:
  "shouldRetryTransaction error \<longleftrightarrow>
     (\<exists>err. error = Some err \<and> canRetry err \<noteq> Some False
        \<and> errorType err \<noteq> Some ''rejected''
        \<and> errorType err \<noteq> Some ''insufficient_funds''
        \<and> errorType err \<noteq> Some ''insufficient_gas'')"
  by (cases error) (auto simp: shouldRetryTransaction_def)

lemma submissions_append [simp]: "submissions (xs @ ys) = submissions xs + submissions ys"
  by (induction xs) (simp_all add: submissions_def)

lemma submissions_simps [simp]:
  "submissions [] = 0"
  "submissions (SignAndExecute # xs) = Suc (submissions xs)"
  "submissions (WaitForTransaction # xs) = submissions xs"
  "submissions (UpdateLocalState # xs) = submissions xs"
  "submissions (OnRetry n # xs) = submissions xs"
  "submissions (Sleep n # xs) = submissions xs"
  by (simp_all add: submissions_def)

lemma submissions_attempt [simp]: "submissions (attempt_events a) = 1"
  by (cases a) (simp_all add: attempt_events_def)

lemma sleeps_append [simp]: "sleeps (xs @ ys) = sleeps xs @ sleeps ys"
  by (induction xs rule: sleeps.induct) simp_all

lemma sleeps_attempt [simp]: "sleeps (attempt_events a) = []"
  by (cases a) (simp_all add: attempt_events_def)

lemma retried_Confirmed [simp]: "\<not> retried Confirmed"
  by (simp add: retried_def)

lemma retried_error: "retried a \<longleftrightarrow> a \<noteq> Confirmed \<and> shouldRetryTransaction (attempt_error a)"
  by (cases a) (simp_all add: retried_def attempt_error_def)

lemma executeTransaction_alt:
  "executeTransaction env trace =
     (if env (submissions trace) = Confirmed then Inr ()
      else Inl (attempt_error (env (submissions trace))),
      trace @ attempt_events (env (submissions trace)))"
  by (cases "env (submissions trace)")
     (simp_all add: executeTransaction_def Let_def attempt_error_def attempt_events_def)

lemma loop_past_end:
  "executeWithRetry_loop fn maxRetries d cb (Suc maxRetries) e t = (Inl e, t)"
  by (subst executeWithRetry_loop.simps) simp

lemma one_round:
  assumes "attempt \<le> maxRetries"
  shows "executeWithRetry_loop (executeTransaction env) maxRetries d (Some f) attempt lastError trace =
     (if env (submissions trace) = Confirmed
      then (Inr (), trace @ attempt_events (env (submissions trace)))
      else if \<not> retried (env (submissions trace)) \<or> \<not> attempt < maxRetries
      then (Inl (attempt_error (env (submissions trace))),
            trace @ attempt_events (env (submissions trace)))
      else executeWithRetry_loop (executeTransaction env) maxRetries d (Some f) (Suc attempt)
             (attempt_error (env (submissions trace)))
             (f (Suc attempt) maxRetries (attempt_error (env (submissions trace)))
                (trace @ attempt_events (env (submissions trace)))
              @ [Sleep (d * Suc attempt)]))"
  using assms
  apply (subst executeWithRetry_loop.simps)
  apply (auto simp: executeTransaction_alt Let_def loop_past_end le_less_Suc_eq retried_error)
  done

lemma completeSession_run:
  "completeSession env =
     (if final_answer env = Confirmed then Inr () else Inl (attempt_error (final_answer env)),
      attempt_events (env 0)
      @ (if retried (env 0)
         then [OnRetry 1, Sleep 2000] @ attempt_events (env 1)
              @ (if retried (env 1)
                 then [OnRetry 2, Sleep 4000] @ attempt_events (env 2)
                 else [])
         else []))"
  unfolding completeSession_def executeWithRetry_def
  apply (subst one_round, simp)
  apply (cases "retried (env 0)")
   prefer 2 apply (auto simp: final_answer_def)[1]
  apply (subst one_round, simp)
  apply (cases "retried (env 1)")
   prefer 2 apply (auto simp: final_answer_def)[1]
  apply (subst one_round, simp)
  apply (auto simp: final_answer_def numeral_2_eq_2)
  done


lemma completeSession_submissions:
  "submissions (snd (completeSession env)) =
     (if retried (env 0) then (if retried (env 1) then 3 else 2) else 1)"
  by (simp add: completeSession_run)

lemma completeSession_sleeps:
  "sleeps (snd (completeSession env)) =
     (if retried (env 0) then (if retried (env 1) then [2000, 4000] else [2000]) else [])"
  by (simp add: completeSession_run)

lemma completeSession_gives_up:
  "env 0 = WaitFailed e \<Longrightarrow> \<not> shouldRetryTransaction e \<Longrightarrow>
   completeSession env = (Inl e, [SignAndExecute, WaitForTransaction])"
  by (simp add: completeSession_run retried_def final_answer_def attempt_error_def
      attempt_events_def)

lemma completeSession_retries_wait:
  assumes "env 0 = WaitFailed e" "shouldRetryTransaction e"
  shows "\<exists>rest. snd (completeSession env)
           = [SignAndExecute, WaitForTransaction, OnRetry 1, Sleep 2000, SignAndExecute] @ rest"
proof -
  have "\<exists>more. attempt_events (env 1) = SignAndExecute # more"
    by (cases "env 1") (simp_all add: attempt_events_def)
  then show ?thesis
    using assms by (auto simp: completeSession_run retried_def attempt_events_def)
qed

lemma completeSession_retries_bookkeeping:
  assumes "env 0 = BookkeepingFailed"
  shows "\<exists>rest. snd (completeSession env)
           = [SignAndExecute, WaitForTransaction, UpdateLocalState, OnRetry 1, Sleep 2000,
              SignAndExecute] @ rest"
proof -
  have "\<exists>more. attempt_events (env 1) = SignAndExecute # more"
    by (cases "env 1") (simp_all add: attempt_events_def)
  then show ?thesis
    using assms by (auto simp: completeSession_run retried_def attempt_events_def shouldRetry_plain)
qed

text \<open>
  Claim C4 says that a failed confirmation wait never leads to another submission. When
  the node confirms the second submission and the first wait fails with a plain error
  (neither \<open>canRetry\<close> nor \<open>errorType\<close> set, as a timeout thrown by the client is), the
  orchestrator calls the retry callback, sleeps 2000 ms and submits the transaction
  again: two submissions.
\<close>

theorem confirmation_failure_counterexample:
  "wait_fails_once 0 = WaitFailed (Some \<lparr> canRetry = None, errorType = None \<rparr>)
   \<and> completeSession wait_fails_once
       = (Inr (), [SignAndExecute, WaitForTransaction, OnRetry 1, Sleep 2000,
                   SignAndExecute, WaitForTransaction, UpdateLocalState])
   \<and> submissions (snd (completeSession wait_fails_once)) = 2"
proof -
  have a: "wait_fails_once 0 = WaitFailed (Some \<lparr> canRetry = None, errorType = None \<rparr>)"
    by (simp add: wait_fails_once_def)
  have b: "completeSession wait_fails_once
       = (Inr (), [SignAndExecute, WaitForTransaction, OnRetry 1, Sleep 2000,
                   SignAndExecute, WaitForTransaction, UpdateLocalState])"
    by (simp add: completeSession_run final_answer_def wait_fails_once_def retried_def
        attempt_events_def shouldRetry_plain)
  from a b show ?thesis by simp
qed

text \<open>
  Claim C4, as the code has it. A failed confirmation wait is handled like every other
  failure of the transaction function: if \<open>shouldRetryTransaction\<close> accepts the error the
  transaction is submitted again, otherwise the error is thrown at once, after the one
  submission. The number of submissions of one claim is one more than the number of
  leading answers that are retried, and never more than 3. A plain error is retried.
  \<open>shouldRetryTransaction\<close> accepts exactly the errors that are not falsy, whose
  \<open>canRetry\<close> is not \<open>false\<close> and whose \<open>errorType\<close> is none of \<open>rejected\<close>,
  \<open>insufficient_funds\<close> and \<open>insufficient_gas\<close>. After a retried wait failure the trace
  goes on with the retry callback, a sleep of 2000 ms and the next submission; the
  sleeps of a whole run are 2000 ms before the second submission and 4000 ms before the
  third. An error thrown by the bookkeeping after the confirmation, when the local cache
  is already updated, is rejected through the same \<open>catch\<close> and leads to another
  submission too. A run whose first submission is confirmed and booked is one
  submission, one wait and one update. The last conjunct is the whole run: the result
  and the trace of \<open>completeSession\<close> for every environment.
\<close>

theorem confirmation_failure_is_retried:
  "(env 0 = WaitFailed e \<and> shouldRetryTransaction e
      \<longrightarrow> 2 \<le> submissions (snd (completeSession env)))
   \<and> (env 0 = WaitFailed e \<and> \<not> shouldRetryTransaction e
      \<longrightarrow> completeSession env = (Inl e, [SignAndExecute, WaitForTransaction]))
   \<and> submissions (snd (completeSession env))
        = (if retried (env 0) then (if retried (env 1) then 3 else 2) else 1)
   \<and> submissions (snd (completeSession env)) \<le> 3
   \<and> shouldRetryTransaction (Some \<lparr> canRetry = None, errorType = None \<rparr>)
   \<and> (shouldRetryTransaction x \<longleftrightarrow>
        (\<exists>err. x = Some err \<and> canRetry err \<noteq> Some False
           \<and> errorType err \<noteq> Some ''rejected''
           \<and> errorType err \<noteq> Some ''insufficient_funds''
           \<and> errorType err \<noteq> Some ''insufficient_gas''))
   \<and> (env 0 = WaitFailed e \<and> shouldRetryTransaction e
      \<longrightarrow> (\<exists>rest. snd (completeSession env)
             = [SignAndExecute, WaitForTransaction, OnRetry 1, Sleep 2000, SignAndExecute] @ rest))
   \<and> (env 0 = BookkeepingFailed
      \<longrightarrow> 2 \<le> submissions (snd (completeSession env))
        \<and> (\<exists>rest. snd (completeSession env)
             = [SignAndExecute, WaitForTransaction, UpdateLocalState, OnRetry 1, Sleep 2000,
                SignAndExecute] @ rest))
   \<and> (env 0 = Confirmed
      \<longrightarrow> completeSession env
            = (Inr (), [SignAndExecute, WaitForTransaction, UpdateLocalState]))
   \<and> sleeps (snd (completeSession env))
        = (if retried (env 0) then (if retried (env 1) then [2000, 4000] else [2000]) else [])
   \<and> completeSession env =
     (if final_answer env = Confirmed then Inr () else Inl (attempt_error (final_answer env)),
      attempt_events (env 0)
      @ (if retried (env 0)
         then [OnRetry 1, Sleep 2000] @ attempt_events (env 1)
              @ (if retried (env 1)
                 then [OnRetry 2, Sleep 4000] @ attempt_events (env 2)
                 else [])
         else []))"
proof (intro conjI impI)
  assume "env 0 = WaitFailed e \<and> shouldRetryTransaction e"
  then have "retried (env 0)" by (simp add: retried_def)
  then show "2 \<le> submissions (snd (completeSession env))"
    by (simp add: completeSession_submissions)
next
  assume "env 0 = WaitFailed e \<and> \<not> shouldRetryTransaction e"
  then show "completeSession env = (Inl e, [SignAndExecute, WaitForTransaction])"
    by (simp add: completeSession_gives_up)
next
  show "submissions (snd (completeSession env))
        = (if retried (env 0) then (if retried (env 1) then 3 else 2) else 1)"
    by (rule completeSession_submissions)
  then show "submissions (snd (completeSession env)) \<le> 3" by simp
  show "shouldRetryTransaction (Some \<lparr> canRetry = None, errorType = None \<rparr>)"
    by (rule shouldRetry_plain)
  show "shouldRetryTransaction x \<longleftrightarrow>
        (\<exists>err. x = Some err \<and> canRetry err \<noteq> Some False
           \<and> errorType err \<noteq> Some ''rejected''
           \<and> errorType err \<noteq> Some ''insufficient_funds''
           \<and> errorType err \<noteq> Some ''insufficient_gas'')"
    by (rule shouldRetry_char)
next
  assume "env 0 = WaitFailed e \<and> shouldRetryTransaction e"
  then show "\<exists>rest. snd (completeSession env)
             = [SignAndExecute, WaitForTransaction, OnRetry 1, Sleep 2000, SignAndExecute] @ rest"
    using completeSession_retries_wait by blast
next
  assume b: "env 0 = BookkeepingFailed"
  then have "retried (env 0)" by (simp add: retried_def shouldRetry_plain)
  then show "2 \<le> submissions (snd (completeSession env))"
    by (simp add: completeSession_submissions)
  from b show "\<exists>rest. snd (completeSession env)
             = [SignAndExecute, WaitForTransaction, UpdateLocalState, OnRetry 1, Sleep 2000,
                SignAndExecute] @ rest"
    by (rule completeSession_retries_bookkeeping)
next
  assume "env 0 = Confirmed"
  then show "completeSession env
            = (Inr (), [SignAndExecute, WaitForTransaction, UpdateLocalState])"
    by (simp add: completeSession_run final_answer_def attempt_events_def)
next
  show "sleeps (snd (completeSession env))
        = (if retried (env 0) then (if retried (env 1) then [2000, 4000] else [2000]) else [])"
    by (rule completeSession_sleeps)
  show "completeSession env =
     (if final_answer env = Confirmed then Inr () else Inl (attempt_error (final_answer env)),
      attempt_events (env 0)
      @ (if retried (env 0)
         then [OnRetry 1, Sleep 2000] @ attempt_events (env 1)
              @ (if retried (env 1)
                 then [OnRetry 2, Sleep 4000] @ attempt_events (env 2)
                 else [])
         else []))"
    by (rule completeSession_run)
qed

text \<open>
  The theorem of C4 at four environments: the first confirmation wait fails with a plain
  error; the bookkeeping fails after every confirmation (three submissions, each of them
  executed, and the error thrown at the end); every wait fails with an error whose
  \<open>canRetry\<close> is \<open>false\<close>; every submission is confirmed and booked.
\<close>

theorem confirmation_failure_is_retried_witness:
  "wait_fails_once 0 = WaitFailed (Some \<lparr> canRetry = None, errorType = None \<rparr>)
   \<and> shouldRetryTransaction (Some \<lparr> canRetry = None, errorType = None \<rparr>)
   \<and> 2 \<le> submissions (snd (completeSession wait_fails_once))
   \<and> sleeps (snd (completeSession wait_fails_once)) = [2000]
   \<and> (\<exists>rest. snd (completeSession wait_fails_once)
         = [SignAndExecute, WaitForTransaction, OnRetry 1, Sleep 2000, SignAndExecute] @ rest)
   \<and> bookkeeping_always_fails 0 = BookkeepingFailed
   \<and> submissions (snd (completeSession bookkeeping_always_fails)) = 3
   \<and> sleeps (snd (completeSession bookkeeping_always_fails)) = [2000, 4000]
   \<and> fst (completeSession bookkeeping_always_fails)
       = Inl (Some \<lparr> canRetry = None, errorType = None \<rparr>)
   \<and> (\<exists>rest. snd (completeSession bookkeeping_always_fails)
         = [SignAndExecute, WaitForTransaction, UpdateLocalState, OnRetry 1, Sleep 2000,
            SignAndExecute] @ rest)
   \<and> \<not> shouldRetryTransaction (Some \<lparr> canRetry = Some False, errorType = None \<rparr>)
   \<and> completeSession (\<lambda>n. WaitFailed (Some \<lparr> canRetry = Some False, errorType = None \<rparr>))
       = (Inl (Some \<lparr> canRetry = Some False, errorType = None \<rparr>),
          [SignAndExecute, WaitForTransaction])
   \<and> completeSession (\<lambda>n. Confirmed)
       = (Inr (), [SignAndExecute, WaitForTransaction, UpdateLocalState])"
proof -
  note main = confirmation_failure_is_retried
                [of wait_fails_once "Some \<lparr> canRetry = None, errorType = None \<rparr>"]
  note book = confirmation_failure_is_retried [of bookkeeping_always_fails]
  note stop = confirmation_failure_is_retried
                [of "\<lambda>n. WaitFailed (Some \<lparr> canRetry = Some False, errorType = None \<rparr>)"
                    "Some \<lparr> canRetry = Some False, errorType = None \<rparr>"
                    "Some \<lparr> canRetry = Some False, errorType = None \<rparr>"]
  note good = confirmation_failure_is_retried [of "\<lambda>n. Confirmed"]
  have a: "wait_fails_once 0 = WaitFailed (Some \<lparr> canRetry = None, errorType = None \<rparr>)"
    by (simp add: wait_fails_once_def)
  from main have b: "shouldRetryTransaction (Some \<lparr> canRetry = None, errorType = None \<rparr>)"
    by blast
  from main a b have c: "2 \<le> submissions (snd (completeSession wait_fails_once))" by blast
  from main a b have c': "\<exists>rest. snd (completeSession wait_fails_once)
         = [SignAndExecute, WaitForTransaction, OnRetry 1, Sleep 2000, SignAndExecute] @ rest"
    by blast
  have r0: "retried (wait_fails_once 0)" "\<not> retried (wait_fails_once 1)"
    using b by (simp_all add: wait_fails_once_def retried_def)
  from main have "sleeps (snd (completeSession wait_fails_once))
        = (if retried (wait_fails_once 0)
           then (if retried (wait_fails_once 1) then [2000, 4000] else [2000]) else [])"
    by blast
  then have d: "sleeps (snd (completeSession wait_fails_once)) = [2000]" using r0 by simp
  have k: "bookkeeping_always_fails 0 = BookkeepingFailed"
    by (simp add: bookkeeping_always_fails_def)
  have rk: "retried (bookkeeping_always_fails 0)" "retried (bookkeeping_always_fails 1)"
    using b by (simp_all add: bookkeeping_always_fails_def retried_def)
  from book have "submissions (snd (completeSession bookkeeping_always_fails))
        = (if retried (bookkeeping_always_fails 0)
           then (if retried (bookkeeping_always_fails 1) then 3 else 2) else 1)"
    by blast
  then have e: "submissions (snd (completeSession bookkeeping_always_fails)) = 3"
    using rk by simp
  from book have "sleeps (snd (completeSession bookkeeping_always_fails))
        = (if retried (bookkeeping_always_fails 0)
           then (if retried (bookkeeping_always_fails 1) then [2000, 4000] else [2000]) else [])"
    by blast
  then have f: "sleeps (snd (completeSession bookkeeping_always_fails)) = [2000, 4000]"
    using rk by simp
  from book have "completeSession bookkeeping_always_fails =
     (if final_answer bookkeeping_always_fails = Confirmed then Inr ()
      else Inl (attempt_error (final_answer bookkeeping_always_fails)),
      attempt_events (bookkeeping_always_fails 0)
      @ (if retried (bookkeeping_always_fails 0)
         then [OnRetry 1, Sleep 2000] @ attempt_events (bookkeeping_always_fails 1)
              @ (if retried (bookkeeping_always_fails 1)
                 then [OnRetry 2, Sleep 4000] @ attempt_events (bookkeeping_always_fails 2)
                 else [])
         else []))"
    by blast
  then have g: "fst (completeSession bookkeeping_always_fails)
       = Inl (Some \<lparr> canRetry = None, errorType = None \<rparr>)"
    using rk by (simp add: final_answer_def bookkeeping_always_fails_def attempt_error_def)
  from book k have h: "\<exists>rest. snd (completeSession bookkeeping_always_fails)
         = [SignAndExecute, WaitForTransaction, UpdateLocalState, OnRetry 1, Sleep 2000,
            SignAndExecute] @ rest"
    by blast
  from stop have "shouldRetryTransaction (Some \<lparr> canRetry = Some False, errorType = None \<rparr>) \<longleftrightarrow>
        (\<exists>err. Some \<lparr> canRetry = Some False, errorType = None \<rparr> = Some err
           \<and> canRetry err \<noteq> Some False
           \<and> errorType err \<noteq> Some ''rejected''
           \<and> errorType err \<noteq> Some ''insufficient_funds''
           \<and> errorType err \<noteq> Some ''insufficient_gas'')"
    by blast
  then have n: "\<not> shouldRetryTransaction (Some \<lparr> canRetry = Some False, errorType = None \<rparr>)"
    by auto
  from stop n have s: "completeSession
         (\<lambda>n. WaitFailed (Some \<lparr> canRetry = Some False, errorType = None \<rparr>))
       = (Inl (Some \<lparr> canRetry = Some False, errorType = None \<rparr>),
          [SignAndExecute, WaitForTransaction])"
    by blast
  from good have o: "completeSession (\<lambda>n. Confirmed)
       = (Inr (), [SignAndExecute, WaitForTransaction, UpdateLocalState])"
    by blast
  from a b c c' d k e f g h n s o show ?thesis by blast
qed

section \<open>The ledger: rewards, caps and the treasury\<close>

text \<open>
  \<open>complete_session\<close> is brought into a flat form first: the checks in the order of
  the code, then the one result. The additions to the user's record cannot overflow
  once the checks have passed; those to the treasury's statistics can.
\<close>

lemma unat_add_u64: "unat a + unat b < 2 ^ 64 \<Longrightarrow> unat (a + b :: u64) = unat a + unat b"
  by (simp add: unat_add_lem [THEN iffD1])

lemma add_u64_zero [simp]: "add_u64 a 0 = Inr a"
  using unat_u64_lt [of a] by (simp add: add_u64_def)

lemma final_reward_unat:
  assumes "amount (claim_record gs u now) < 100000000000"
  shows "unat (final_reward gs u now) = spec_payout gs u now"
proof -
  let ?a = "amount (claim_record gs u now)"
  have a: "unat ?a < 100000000000" using assms by (simp add: word_less_nat_alt)
  have "?a \<le> 100000000000" using assms by simp
  then have r: "unat (100000000000 - ?a) = 100000000000 - unat ?a"
    by (simp add: unat_sub)
  show ?thesis
    using r by (auto simp: final_reward_def spec_payout_def claim_record_def Let_def word_less_nat_alt min_def)
qed

lemma bind_abort_simps [simp]:
  "bind_abort (Inr v) f = f v"
  "bind_abort (Inl e) f = Inl e"
  by (simp_all add: bind_abort_def)

lemma final_reward_fold:
  "(if session_reward gs > 100000000000 - amount (claim_record gs u now)
    then 100000000000 - amount (claim_record gs u now) else session_reward gs)
   = final_reward gs u now"
  by (simp add: final_reward_def Let_def)

lemma get_or_create_pair:
  "get_or_create_daily_earning gs u (now div 86400000)
      = (gs\<lparr> daily_earnings := (daily_earnings gs)(u \<mapsto> claim_record gs u now) \<rparr>,
         claim_record gs u now)"
  by (simp add: get_or_create_daily_earning_def claim_record_def Let_def)

lemma complete_session_unfold:
  "complete_session tr gs now u =
     (if amount (claim_record gs u now) \<ge> 100000000000 then Inl (Abort 1)
      else if sessions (claim_record gs u now) \<ge> 100 then Inl (Abort 2)
      else if \<not> (oct_balance tr \<ge> final_reward gs u now) then Inl (Abort ETreasuryInsufficient)
      else bind_abort (add_u64 (amount (claim_record gs u now)) (final_reward gs u now)) (\<lambda>amount1.
           bind_abort (add_u64 (sessions (claim_record gs u now)) 1) (\<lambda>sessions1.
           bind_abort (add_u64 (total_rewards_paid tr) (final_reward gs u now)) (\<lambda>paid1.
           bind_abort (add_u64 (total_users_rewarded tr) 1) (\<lambda>rewarded1.
             Inr (tr\<lparr> oct_balance := oct_balance tr - final_reward gs u now,
                       total_rewards_paid := paid1, total_users_rewarded := rewarded1 \<rparr>,
                  gs\<lparr> daily_earnings := (daily_earnings gs)
                       (u \<mapsto> (claim_record gs u now)\<lparr> amount := amount1, sessions := sessions1 \<rparr>) \<rparr>,
                  [CoinTo u (final_reward gs u now)]))))))"
proof -
  have day: "(24 * 60 * 60 * 1000 :: u64) = 86400000" by simp
  show ?thesis
    unfolding complete_session_def
    apply (simp only: Let_def)
    apply (simp only: day get_or_create_pair prod.case add_u64_zero bind_abort_simps
        final_reward_fold)
    apply simp
    done
qed

lemma final_reward_le_remaining:
  assumes "amount (claim_record gs u now) < 100000000000"
  shows "unat (amount (claim_record gs u now)) + unat (final_reward gs u now) \<le> 100000000000"
proof -
  have "unat (amount (claim_record gs u now)) < 100000000000"
    using assms by (simp add: word_less_nat_alt)
  moreover have "unat (final_reward gs u now)
      \<le> 100000000000 - unat (amount (claim_record gs u now))"
    using final_reward_unat [OF assms]
    by (simp add: spec_payout_def claim_record_def Let_def)
  ultimately show ?thesis by simp
qed

lemma complete_session_alt:
  "complete_session tr gs now u =
     (if amount (claim_record gs u now) \<ge> 100000000000 then Inl (Abort 1)
      else if sessions (claim_record gs u now) \<ge> 100 then Inl (Abort 2)
      else if oct_balance tr < final_reward gs u now then Inl (Abort ETreasuryInsufficient)
      else if 2 ^ 64 \<le> unat (total_rewards_paid tr) + unat (final_reward gs u now)
              \<or> 2 ^ 64 \<le> unat (total_users_rewarded tr) + 1 then Inl ArithmeticError
      else Inr (tr\<lparr> oct_balance := oct_balance tr - final_reward gs u now,
                     total_rewards_paid := total_rewards_paid tr + final_reward gs u now,
                     total_users_rewarded := total_users_rewarded tr + 1 \<rparr>,
                gs\<lparr> daily_earnings := (daily_earnings gs)
                       (u \<mapsto> (claim_record gs u now)
                               \<lparr> amount := amount (claim_record gs u now) + final_reward gs u now,
                                 sessions := sessions (claim_record gs u now) + 1 \<rparr>) \<rparr>,
                [CoinTo u (final_reward gs u now)]))"
proof (cases "amount (claim_record gs u now) \<ge> 100000000000
              \<or> sessions (claim_record gs u now) \<ge> 100
              \<or> oct_balance tr < final_reward gs u now")
  case True
  then show ?thesis by (auto simp: complete_session_unfold)
next
  case False
  then have a: "amount (claim_record gs u now) < 100000000000"
    and s: "sessions (claim_record gs u now) < 100"
    and b: "final_reward gs u now \<le> oct_balance tr" by auto
  have h1: "unat (amount (claim_record gs u now)) + unat (final_reward gs u now)
      < 18446744073709551616"
    using final_reward_le_remaining [OF a] by simp
  have "unat (sessions (claim_record gs u now)) < 100" using s by (simp add: word_less_nat_alt)
  then have h2: "unat (sessions (claim_record gs u now)) < 18446744073709551615" by simp
  show ?thesis
    using False h1 h2 b by (auto simp add: complete_session_unfold add_u64_def)
qed

lemma claim_record_fields:
  "date (claim_record gs u now) = now div 86400000"
  "unat (amount (claim_record gs u now)) = earned_on gs u (now div 86400000)"
  "unat (sessions (claim_record gs u now)) = sessions_on gs u (now div 86400000)"
  by (auto simp: claim_record_def get_or_create_daily_earning_def Let_def earned_on_def
      sessions_on_def split: option.splits)

text \<open>What a transaction does to the table of daily earnings.\<close>

lemma execute_other_calls:
  assumes "execute (tr, gs) sender c = Inr ((tr', gs'), out)" and "\<forall>now. c \<noteq> CompleteSession now"
  shows "daily_earnings gs' = daily_earnings gs"
  using assms
  by (cases c)
     (auto simp: bind_abort_def admin_set_session_reward_def admin_set_item_price_def
        split: sum.splits if_splits)

lemma execute_claim:
  assumes "execute (tr, gs) sender (CompleteSession now) = Inr ((tr', gs'), out)"
  shows "amount (claim_record gs sender now) < 100000000000"
    and "sessions (claim_record gs sender now) < 100"
    and "final_reward gs sender now \<le> oct_balance tr"
    and "unat (total_rewards_paid tr) + unat (final_reward gs sender now) < 2 ^ 64"
    and "unat (total_users_rewarded tr) + 1 < 2 ^ 64"
    and "tr' = tr\<lparr> oct_balance := oct_balance tr - final_reward gs sender now,
                   total_rewards_paid := total_rewards_paid tr + final_reward gs sender now,
                   total_users_rewarded := total_users_rewarded tr + 1 \<rparr>"
    and "gs' = gs\<lparr> daily_earnings := (daily_earnings gs)
                       (sender \<mapsto> (claim_record gs sender now)
                               \<lparr> amount := amount (claim_record gs sender now) + final_reward gs sender now,
                                 sessions := sessions (claim_record gs sender now) + 1 \<rparr>) \<rparr>"
    and "out = [CoinTo sender (final_reward gs sender now)]"
proof -
  from assms obtain r where r: "complete_session tr gs now sender = Inr r"
    and "r = (tr', gs', out)"
    by (cases "complete_session tr gs now sender") auto
  then have cs: "complete_session tr gs now sender = Inr (tr', gs', out)" by simp
  note alt = cs [unfolded complete_session_alt]
  show "amount (claim_record gs sender now) < 100000000000"
    using alt by (auto split: if_splits)
  show "sessions (claim_record gs sender now) < 100"
    using alt by (auto split: if_splits)
  show "final_reward gs sender now \<le> oct_balance tr"
    using alt by (auto split: if_splits)
  show "unat (total_rewards_paid tr) + unat (final_reward gs sender now) < 2 ^ 64"
    using alt by (auto split: if_splits)
  show "unat (total_users_rewarded tr) + 1 < 2 ^ 64"
    using alt by (auto split: if_splits)
  show "tr' = tr\<lparr> oct_balance := oct_balance tr - final_reward gs sender now,
                   total_rewards_paid := total_rewards_paid tr + final_reward gs sender now,
                   total_users_rewarded := total_users_rewarded tr + 1 \<rparr>"
    using alt by (auto split: if_splits)
  show "gs' = gs\<lparr> daily_earnings := (daily_earnings gs)
                       (sender \<mapsto> (claim_record gs sender now)
                               \<lparr> amount := amount (claim_record gs sender now) + final_reward gs sender now,
                                 sessions := sessions (claim_record gs sender now) + 1 \<rparr>) \<rparr>"
    using alt by (auto split: if_splits)
  show "out = [CoinTo sender (final_reward gs sender now)]"
    using alt by (auto split: if_splits)
qed

lemma claim_step:
  assumes ex: "execute (tr, gs) u (CompleteSession now) = Inr ((tr', gs'), out)"
    and day: "now div 86400000 = d"
  shows "earned_on gs' u d = earned_on gs u d + unat (final_reward gs u now)"
    and "earned_on gs' u d \<le> 100000000000"
    and "sessions_on gs' u d = Suc (sessions_on gs u d)"
    and "sessions_on gs' u d \<le> 100"
    and "coins_to u out = [final_reward gs u now]"
proof -
  note c = execute_claim [OF ex]
  let ?e = "claim_record gs u now" and ?p = "final_reward gs u now"
  have sum: "unat (amount ?e) + unat ?p \<le> 100000000000"
    using c(1) by (rule final_reward_le_remaining)
  then have ua: "unat (amount ?e + ?p) = unat (amount ?e) + unat ?p"
    by (intro unat_add_u64) simp
  have "unat (sessions ?e) < 100" using c(2) by (simp add: word_less_nat_alt)
  then have us: "unat (sessions ?e + 1) = Suc (unat (sessions ?e))"
    using unat_add_u64 [of "sessions ?e" 1] by simp
  have rec: "daily_earnings gs' u = Some (?e\<lparr> amount := amount ?e + ?p, sessions := sessions ?e + 1 \<rparr>)"
    using c(7) by simp
  show "earned_on gs' u d = earned_on gs u d + unat ?p"
    using rec ua day claim_record_fields [of gs u now] by (simp add: earned_on_def)
  then show "earned_on gs' u d \<le> 100000000000"
    using sum day claim_record_fields [of gs u now] by simp
  show "sessions_on gs' u d = Suc (sessions_on gs u d)"
    using rec us day claim_record_fields [of gs u now] by (simp add: sessions_on_def)
  then show "sessions_on gs' u d \<le> 100"
    using \<open>unat (sessions ?e) < 100\<close> day claim_record_fields [of gs u now] by simp
  show "coins_to u out = [?p]" using c(8) by simp
qed

lemma other_step:
  assumes ex: "execute (tr, gs) sender c = Inr ((tr', gs'), out)"
    and other: "\<not> is_claim_of u (sender, c)"
  shows "daily_earnings gs' u = daily_earnings gs u"
proof (cases "\<exists>now. c = CompleteSession now")
  case True
  then obtain now where c: "c = CompleteSession now" by blast
  with other have "sender \<noteq> u" by simp
  moreover from execute_claim(7) [OF ex [unfolded c]]
  have "daily_earnings gs' = (daily_earnings gs)
          (sender \<mapsto> (claim_record gs sender now)
               \<lparr> amount := amount (claim_record gs sender now) + final_reward gs sender now,
                 sessions := sessions (claim_record gs sender now) + 1 \<rparr>)"
    by simp
  ultimately show ?thesis by simp
next
  case False
  with execute_other_calls [OF ex] show ?thesis by simp
qed

lemma transact_cases:
  obtains (aborted) e where "execute l (fst tx) (snd tx) = Inl e" "transact l tx = (l, [])"
  | (finished) l' out where "execute l (fst tx) (snd tx) = Inr (l', out)" "transact l tx = (l', out)"
  by (cases "execute l (fst tx) (snd tx)") (auto simp: transact_def)

lemma sum_rewards_step:
  assumes "claims_in_day u d [tx]"
  shows "earned_on (snd (fst (transact l tx))) u d
           = earned_on (snd l) u d
             + sum_list (map unat (if is_claim_of u tx then coins_to u (snd (transact l tx)) else []))
         \<and> sessions_on (snd (fst (transact l tx))) u d
           = sessions_on (snd l) u d
             + length (if is_claim_of u tx then coins_to u (snd (transact l tx)) else [])
         \<and> earned_on (snd (fst (transact l tx))) u d \<le> max 100000000000 (earned_on (snd l) u d)
         \<and> sessions_on (snd (fst (transact l tx))) u d \<le> max 100 (sessions_on (snd l) u d)"
proof (cases rule: transact_cases [of l tx])
  case (aborted e)
  then show ?thesis by simp
next
  case (finished l' out)
  obtain tr gs where l: "l = (tr, gs)" by (cases l)
  obtain tr' gs' where l': "l' = (tr', gs')" by (cases l')
  obtain sender c where tx: "tx = (sender, c)" by (cases tx)
  show ?thesis
  proof (cases "is_claim_of u tx")
    case True
    then obtain now where c: "c = CompleteSession now" and s: "sender = u"
      unfolding tx by (cases c) auto
    from assms have day: "now div 86400000 = d" by (simp add: tx c s)
    from finished have ex: "execute (tr, gs) u (CompleteSession now) = Inr ((tr', gs'), out)"
      by (simp add: l l' tx c s)
    show ?thesis
      using claim_step [OF ex day] True finished by (simp add: l l')
  next
    case False
    from finished have ex: "execute (tr, gs) sender c = Inr ((tr', gs'), out)"
      by (simp add: l l' tx)
    from False have "\<not> is_claim_of u (sender, c)" by (simp add: tx)
    from other_step [OF ex this] have "daily_earnings gs' u = daily_earnings gs u" .
    then show ?thesis using False finished by (simp add: l l' earned_on_def sessions_on_def)
  qed
qed

lemma claims_in_day_Cons: "claims_in_day u d (tx # txs) \<longleftrightarrow> claims_in_day u d [tx] \<and> claims_in_day u d txs"
  by (cases "(u, d, tx # txs)" rule: claims_in_day.cases) auto

lemma rewards_within_remaining:
  "claims_in_day u d txs \<Longrightarrow>
     earned_on (snd l) u d + sum_list (map unat (session_rewards u l txs))
       \<le> max 100000000000 (earned_on (snd l) u d)
   \<and> sessions_on (snd l) u d + length (session_rewards u l txs)
       \<le> max 100 (sessions_on (snd l) u d)"
proof (induction txs arbitrary: l)
  case Nil
  then show ?case by simp
next
  case (Cons tx txs)
  from Cons.prems have one: "claims_in_day u d [tx]" and rest: "claims_in_day u d txs"
    using claims_in_day_Cons by blast+
  note step = sum_rewards_step [OF one, of l]
  note ih = Cons.IH [OF rest, of "fst (transact l tx)"]
  let ?l' = "fst (transact l tx)"
  let ?r = "if is_claim_of u tx then coins_to u (snd (transact l tx)) else []"
  have split: "session_rewards u l (tx # txs) = ?r @ session_rewards u ?l' txs" by simp
  have "earned_on (snd l) u d + sum_list (map unat (session_rewards u l (tx # txs)))
      = earned_on (snd ?l') u d + sum_list (map unat (session_rewards u ?l' txs))"
    unfolding split using step by simp
  also have "\<dots> \<le> max 100000000000 (earned_on (snd ?l') u d)" using ih by blast
  also have "\<dots> \<le> max 100000000000 (earned_on (snd l) u d)" using step by linarith
  finally have a: "earned_on (snd l) u d + sum_list (map unat (session_rewards u l (tx # txs)))
      \<le> max 100000000000 (earned_on (snd l) u d)" .
  have "sessions_on (snd l) u d + length (session_rewards u l (tx # txs))
      = sessions_on (snd ?l') u d + length (session_rewards u ?l' txs)"
    unfolding split using step by simp
  also have "\<dots> \<le> max 100 (sessions_on (snd ?l') u d)" using ih by blast
  also have "\<dots> \<le> max 100 (sessions_on (snd l) u d)" using step by linarith
  finally have b: "sessions_on (snd l) u d + length (session_rewards u l (tx # txs))
      \<le> max 100 (sessions_on (snd l) u d)" .
  from a b show ?case by blast
qed

lemma execute_claim_iff:
  "execute (tr, gs) u (CompleteSession now) = Inr ((tr', gs'), out)
     \<longleftrightarrow> complete_session tr gs now u = Inr (tr', gs', out)"
  by (cases "complete_session tr gs now u") auto

lemma limits_step:
  assumes "earning_within_limits (snd l) u"
  shows "earning_within_limits (snd (fst (transact l tx))) u"
proof (cases rule: transact_cases [of l tx])
  case (aborted e)
  with assms show ?thesis by simp
next
  case (finished l' out)
  obtain tr gs where l: "l = (tr, gs)" by (cases l)
  obtain tr' gs' where l': "l' = (tr', gs')" by (cases l')
  obtain sender c where tx: "tx = (sender, c)" by (cases tx)
  from finished have ex: "execute (tr, gs) sender c = Inr ((tr', gs'), out)"
    by (simp add: l l' tx)
  show ?thesis
  proof (cases "is_claim_of u tx")
    case True
    then obtain now where c: "c = CompleteSession now" and s: "sender = u"
      unfolding tx by (cases c) auto
    from claim_step [OF ex [unfolded c s] refl]
    have "earned_on gs' u (now div 86400000) \<le> 100000000000"
      and "sessions_on gs' u (now div 86400000) \<le> 100" by simp_all
    moreover from execute_claim(7) [OF ex [unfolded c s]] claim_record_fields(1) [of gs u now]
    have "\<exists>e. daily_earnings gs' u = Some e \<and> date e = now div 86400000" by simp
    ultimately show ?thesis
      using finished by (auto simp: l' earning_within_limits_def earned_on_def sessions_on_def)
  next
    case False
    then have "\<not> is_claim_of u (sender, c)" by (simp add: tx)
    from other_step [OF ex this] assms show ?thesis
      using finished by (simp add: l l' earning_within_limits_def)
  qed
qed

lemma limits_run:
  "earning_within_limits (snd l) u \<Longrightarrow> earning_within_limits (snd (run l txs)) u"
  by (induction txs arbitrary: l) (simp_all add: limits_step)

text \<open>
  Claim C1. In any run of transactions (of any senders, with any calls) in which every
  \<open>complete_session\<close> of user \<open>u\<close> carries a timestamp of the same day \<open>d\<close>, the
  rewards paid to \<open>u\<close> for these sessions sum to at most the daily cap of
  100 000 000 000 units, and at most 100 of them are paid. Whatever the timestamps, a
  user's record that is within the limits (amount at most the cap, sessions at most
  100) stays so after every transaction.
\<close>

theorem daily_limits_hold:
  assumes "claims_in_day u d txs"
  shows "sum_list (map unat (session_rewards u l txs)) \<le> 100000000000
       \<and> length (session_rewards u l txs) \<le> 100
       \<and> (earning_within_limits (snd l) u \<longrightarrow> earning_within_limits (snd (run l txs)) u)"
proof -
  from rewards_within_remaining [OF assms, of l]
  have a: "earned_on (snd l) u d + sum_list (map unat (session_rewards u l txs))
       \<le> max 100000000000 (earned_on (snd l) u d)"
   and b: "sessions_on (snd l) u d + length (session_rewards u l txs)
       \<le> max 100 (sessions_on (snd l) u d)" by blast+
  from a have "sum_list (map unat (session_rewards u l txs)) \<le> 100000000000" by linarith
  moreover from b have "length (session_rewards u l txs) \<le> 100" by linarith
  ultimately show ?thesis using limits_run by blast
qed

lemma first_claim:
  "complete_session funded_treasury fresh_state 1700000000000 7
     = Inr (\<lparr> oct_balance = 4000000000, treasury_admin_address = 1,
              total_rewards_paid = 1000000000, total_users_rewarded = 1 \<rparr>,
            fresh_state\<lparr> daily_earnings :=
              [7 \<mapsto> \<lparr> date = 19675, amount = 1000000000, sessions = 1 \<rparr>] \<rparr>,
            [CoinTo 7 1000000000])"
  by (simp add: complete_session_alt claim_record_def final_reward_def funded_treasury_def
      fresh_state_def init_def get_or_create_daily_earning_def Let_def ETreasuryInsufficient_def
      word_le_nat_alt word_less_nat_alt)

lemma second_claim:
  "complete_session \<lparr> oct_balance = 4000000000, treasury_admin_address = 1,
              total_rewards_paid = 1000000000, total_users_rewarded = 1 \<rparr>
            (fresh_state\<lparr> daily_earnings :=
              [7 \<mapsto> \<lparr> date = 19675, amount = 1000000000, sessions = 1 \<rparr>] \<rparr>)
            1700000001000 7
     = Inr (\<lparr> oct_balance = 3000000000, treasury_admin_address = 1,
              total_rewards_paid = 2000000000, total_users_rewarded = 2 \<rparr>,
            fresh_state\<lparr> daily_earnings :=
              [7 \<mapsto> \<lparr> date = 19675, amount = 2000000000, sessions = 2 \<rparr>] \<rparr>,
            [CoinTo 7 1000000000])"
  by (simp add: complete_session_alt claim_record_def final_reward_def
      fresh_state_def init_def get_or_create_daily_earning_def Let_def ETreasuryInsufficient_def
      word_le_nat_alt word_less_nat_alt)

text \<open>
  The theorem of C1 at two claims of user 7 on day 19675 against the funded treasury:
  both are paid 1 OCT.
\<close>

theorem daily_limits_hold_witness:
  "claims_in_day 7 19675 [(7, CompleteSession 1700000000000), (7, CompleteSession 1700000001000)]
   \<and> session_rewards 7 (funded_treasury, fresh_state)
        [(7, CompleteSession 1700000000000), (7, CompleteSession 1700000001000)]
       = [1000000000, 1000000000]
   \<and> sum_list (map unat (session_rewards 7 (funded_treasury, fresh_state)
        [(7, CompleteSession 1700000000000), (7, CompleteSession 1700000001000)])) \<le> 100000000000
   \<and> length (session_rewards 7 (funded_treasury, fresh_state)
        [(7, CompleteSession 1700000000000), (7, CompleteSession 1700000001000)]) \<le> 100
   \<and> earning_within_limits fresh_state 7
   \<and> earning_within_limits (snd (run (funded_treasury, fresh_state)
        [(7, CompleteSession 1700000000000), (7, CompleteSession 1700000001000)])) 7"
proof -
  let ?txs = "[(7 :: address, CompleteSession 1700000000000), (7, CompleteSession 1700000001000)]"
  note main = daily_limits_hold [of 7 19675 ?txs "(funded_treasury, fresh_state)"]
  have day: "claims_in_day 7 19675 ?txs" by simp
  have ok: "earning_within_limits (snd (funded_treasury, fresh_state)) 7"
    by (simp add: earning_within_limits_def fresh_state_def init_def)
  have t1: "transact (funded_treasury, fresh_state) (7, CompleteSession 1700000000000)
     = ((\<lparr> oct_balance = 4000000000, treasury_admin_address = 1,
              total_rewards_paid = 1000000000, total_users_rewarded = 1 \<rparr>,
         fresh_state\<lparr> daily_earnings :=
              [7 \<mapsto> \<lparr> date = 19675, amount = 1000000000, sessions = 1 \<rparr>] \<rparr>),
        [CoinTo 7 1000000000])"
    by (simp add: transact_def first_claim)
  have t2: "transact (\<lparr> oct_balance = 4000000000, treasury_admin_address = 1,
              total_rewards_paid = 1000000000, total_users_rewarded = 1 \<rparr>,
         fresh_state\<lparr> daily_earnings :=
              [7 \<mapsto> \<lparr> date = 19675, amount = 1000000000, sessions = 1 \<rparr>] \<rparr>)
         (7, CompleteSession 1700000001000)
     = ((\<lparr> oct_balance = 3000000000, treasury_admin_address = 1,
              total_rewards_paid = 2000000000, total_users_rewarded = 2 \<rparr>,
         fresh_state\<lparr> daily_earnings :=
              [7 \<mapsto> \<lparr> date = 19675, amount = 2000000000, sessions = 2 \<rparr>] \<rparr>),
        [CoinTo 7 1000000000])"
    by (simp add: transact_def second_claim)
  have rew: "session_rewards 7 (funded_treasury, fresh_state) ?txs = [1000000000, 1000000000]"
    by (simp add: t1 t2)
  from main [OF day] ok
  have "sum_list (map unat (session_rewards 7 (funded_treasury, fresh_state) ?txs)) \<le> 100000000000
      \<and> length (session_rewards 7 (funded_treasury, fresh_state) ?txs) \<le> 100
      \<and> earning_within_limits (snd (run (funded_treasury, fresh_state) ?txs)) 7"
    by blast
  with day ok rew show ?thesis by simp
qed

lemma complete_session_Inr:
  assumes "complete_session tr gs now u = Inr (tr', gs', out)"
  shows "amount (claim_record gs u now) < 100000000000"
    and "sessions (claim_record gs u now) < 100"
    and "final_reward gs u now \<le> oct_balance tr"
    and "unat (total_rewards_paid tr) + unat (final_reward gs u now) < 2 ^ 64"
    and "unat (total_users_rewarded tr) + 1 < 2 ^ 64"
    and "tr' = tr\<lparr> oct_balance := oct_balance tr - final_reward gs u now,
                   total_rewards_paid := total_rewards_paid tr + final_reward gs u now,
                   total_users_rewarded := total_users_rewarded tr + 1 \<rparr>"
    and "gs' = gs\<lparr> daily_earnings := (daily_earnings gs)
                       (u \<mapsto> (claim_record gs u now)
                               \<lparr> amount := amount (claim_record gs u now) + final_reward gs u now,
                                 sessions := sessions (claim_record gs u now) + 1 \<rparr>) \<rparr>"
    and "out = [CoinTo u (final_reward gs u now)]"
  using execute_claim [OF execute_claim_iff [THEN iffD2, OF assms]] by blast+

text \<open>
  Claim C3. A \<open>complete_session\<close> that is accepted pays the sender one coin of
  \<open>min(session_reward + 0, daily_cap - amount)\<close> units, where \<open>amount\<close> is what the
  record holds after the rollover check: what the stored record says the user has earned
  on the day of the claim, 0 without a record of that day. The treasury's balance goes
  down by exactly that, \<open>total_rewards_paid\<close> and the user's amount of the day go up by
  it, and \<open>total_users_rewarded\<close> and the user's sessions of the day go up by one;
  nothing else in the two shared objects changes. A claim is accepted only below the
  cap and below 100 sessions. All of it is stated on the unsigned values, so nothing
  wraps around.
\<close>

theorem claim_pays_capped_reward:
  assumes "complete_session tr gs now u = Inr (tr', gs', out)"
  shows "\<exists>p e'.
           out = [CoinTo u p]
         \<and> unat p = min (unat (session_reward gs) + 0)
                        (100000000000
                           - unat (amount (snd (get_or_create_daily_earning gs u (now div 86400000)))))
         \<and> unat (oct_balance tr') + unat p = unat (oct_balance tr)
         \<and> unat (total_rewards_paid tr') = unat (total_rewards_paid tr) + unat p
         \<and> unat (total_users_rewarded tr') = unat (total_users_rewarded tr) + 1
         \<and> daily_earnings gs' u = Some e'
         \<and> date e' = now div 86400000
         \<and> unat (amount e')
             = unat (amount (snd (get_or_create_daily_earning gs u (now div 86400000)))) + unat p
         \<and> unat (sessions e')
             = unat (sessions (snd (get_or_create_daily_earning gs u (now div 86400000)))) + 1
         \<and> earned_on gs u (now div 86400000) < 100000000000
         \<and> sessions_on gs u (now div 86400000) < 100
         \<and> unat p = min (unat (session_reward gs) + 0)
                        (100000000000 - earned_on gs u (now div 86400000))
         \<and> unat (amount e') = earned_on gs u (now div 86400000) + unat p
         \<and> unat (sessions e') = sessions_on gs u (now div 86400000) + 1
         \<and> earned_on gs' u (now div 86400000) = earned_on gs u (now div 86400000) + unat p
         \<and> sessions_on gs' u (now div 86400000) = sessions_on gs u (now div 86400000) + 1
         \<and> gs' = gs\<lparr> daily_earnings := (daily_earnings gs)(u \<mapsto> e') \<rparr>
         \<and> tr' = tr\<lparr> oct_balance := oct_balance tr - p,
                        total_rewards_paid := total_rewards_paid tr + p,
                        total_users_rewarded := total_users_rewarded tr + 1 \<rparr>"
proof -
  note c = complete_session_Inr [OF assms]
  let ?d = "now div 86400000"
  let ?e = "claim_record gs u now" and ?p = "final_reward gs u now"
  let ?e' = "?e\<lparr> amount := amount ?e + ?p, sessions := sessions ?e + 1 \<rparr>"
  have ea: "unat (amount ?e) = earned_on gs u ?d" by (rule claim_record_fields)
  have es: "unat (sessions ?e) = sessions_on gs u ?d" by (rule claim_record_fields)
  have p: "unat ?p = min (unat (session_reward gs) + 0) (100000000000 - unat (amount ?e))"
    using final_reward_unat [OF c(1)] by (simp add: spec_payout_def claim_record_def Let_def)
  have bal: "unat (oct_balance tr - ?p) + unat ?p = unat (oct_balance tr)"
    using c(3) by (simp add: unat_sub word_le_nat_alt)
  have paid: "unat (total_rewards_paid tr + ?p) = unat (total_rewards_paid tr) + unat ?p"
    using c(4) by (intro unat_add_u64)
  have cnt: "unat (total_users_rewarded tr + 1) = unat (total_users_rewarded tr) + 1"
    using c(5) unat_add_u64 [of "total_users_rewarded tr" 1] by simp
  have "unat (amount ?e) + unat ?p \<le> 100000000000"
    using c(1) by (rule final_reward_le_remaining)
  then have amt: "unat (amount ?e + ?p) = unat (amount ?e) + unat ?p"
    by (intro unat_add_u64) simp
  have ua: "unat (amount ?e) < 100000000000" using c(1) by (simp add: word_less_nat_alt)
  have us: "unat (sessions ?e) < 100" using c(2) by (simp add: word_less_nat_alt)
  then have ses: "unat (sessions ?e + 1) = unat (sessions ?e) + 1"
    using unat_add_u64 [of "sessions ?e" 1] by simp
  have o: "out = [CoinTo u ?p]" by (rule c(8))
  have r: "daily_earnings gs' u = Some ?e'" using c(7) by simp
  have d: "date ?e' = ?d" by (simp add: claim_record_fields)
  have g: "gs' = gs\<lparr> daily_earnings := (daily_earnings gs)(u \<mapsto> ?e') \<rparr>" by (rule c(7))
  have t: "tr' = tr\<lparr> oct_balance := oct_balance tr - ?p,
                        total_rewards_paid := total_rewards_paid tr + ?p,
                        total_users_rewarded := total_users_rewarded tr + 1 \<rparr>" by (rule c(6))
  have ea': "earned_on gs' u ?d = unat (amount ?e')" using r d by (simp add: earned_on_def)
  have es': "sessions_on gs' u ?d = unat (sessions ?e')" using r d by (simp add: sessions_on_def)
  have first: "out = [CoinTo u ?p]
         \<and> unat ?p = min (unat (session_reward gs) + 0) (100000000000 - unat (amount ?e))
         \<and> unat (oct_balance tr') + unat ?p = unat (oct_balance tr)
         \<and> unat (total_rewards_paid tr') = unat (total_rewards_paid tr) + unat ?p
         \<and> unat (total_users_rewarded tr') = unat (total_users_rewarded tr) + 1
         \<and> daily_earnings gs' u = Some ?e'
         \<and> date ?e' = ?d
         \<and> unat (amount ?e') = unat (amount ?e) + unat ?p
         \<and> unat (sessions ?e') = unat (sessions ?e) + 1"
    using o p bal paid cnt amt ses r d t by simp
  have second: "earned_on gs u ?d < 100000000000
         \<and> sessions_on gs u ?d < 100
         \<and> unat ?p = min (unat (session_reward gs) + 0) (100000000000 - earned_on gs u ?d)
         \<and> unat (amount ?e') = earned_on gs u ?d + unat ?p
         \<and> unat (sessions ?e') = sessions_on gs u ?d + 1
         \<and> earned_on gs' u ?d = earned_on gs u ?d + unat ?p
         \<and> sessions_on gs' u ?d = sessions_on gs u ?d + 1"
    using ua us p amt ses ea' es' unfolding ea es by simp
  from first second g t show ?thesis
    apply (intro exI [of _ ?p] exI [of _ ?e'])
    unfolding claim_record_def
    apply (elim conjE)
    apply (intro conjI; assumption)
    done
qed

text \<open>
  The theorem of C3 at the first claim of user 7 against the funded treasury, where the
  user has no record, and at the second claim of the same day, where the stored record
  holds 1 OCT and one session.
\<close>

theorem claim_pays_capped_reward_witness:
  "complete_session funded_treasury fresh_state 1700000000000 7
     = Inr (\<lparr> oct_balance = 4000000000, treasury_admin_address = 1,
              total_rewards_paid = 1000000000, total_users_rewarded = 1 \<rparr>,
            fresh_state\<lparr> daily_earnings :=
              [7 \<mapsto> \<lparr> date = 19675, amount = 1000000000, sessions = 1 \<rparr>] \<rparr>,
            [CoinTo 7 1000000000])
   \<and> unat (1000000000 :: u64)
       = min (unat (session_reward fresh_state) + 0)
             (100000000000 - unat (amount (snd (get_or_create_daily_earning fresh_state 7
                                                  (1700000000000 div 86400000)))))
   \<and> earned_on fresh_state 7 19675 = 0
   \<and> unat (1000000000 :: u64)
       = min (unat (session_reward fresh_state) + 0) (100000000000 - earned_on fresh_state 7 19675)
   \<and> complete_session \<lparr> oct_balance = 4000000000, treasury_admin_address = 1,
              total_rewards_paid = 1000000000, total_users_rewarded = 1 \<rparr>
            (fresh_state\<lparr> daily_earnings :=
              [7 \<mapsto> \<lparr> date = 19675, amount = 1000000000, sessions = 1 \<rparr>] \<rparr>)
            1700000001000 7
     = Inr (\<lparr> oct_balance = 3000000000, treasury_admin_address = 1,
              total_rewards_paid = 2000000000, total_users_rewarded = 2 \<rparr>,
            fresh_state\<lparr> daily_earnings :=
              [7 \<mapsto> \<lparr> date = 19675, amount = 2000000000, sessions = 2 \<rparr>] \<rparr>,
            [CoinTo 7 1000000000])
   \<and> earned_on (fresh_state\<lparr> daily_earnings :=
              [7 \<mapsto> \<lparr> date = 19675, amount = 1000000000, sessions = 1 \<rparr>] \<rparr>) 7 19675
       = 1000000000
   \<and> earned_on (fresh_state\<lparr> daily_earnings :=
              [7 \<mapsto> \<lparr> date = 19675, amount = 2000000000, sessions = 2 \<rparr>] \<rparr>) 7 19675
       = 1000000000 + unat (1000000000 :: u64)"
proof -
  let ?gs1 = "fresh_state\<lparr> daily_earnings :=
              [7 \<mapsto> \<lparr> date = 19675, amount = 1000000000, sessions = 1 \<rparr>] \<rparr>"
  let ?gs2 = "fresh_state\<lparr> daily_earnings :=
              [7 \<mapsto> \<lparr> date = 19675, amount = 2000000000, sessions = 2 \<rparr>] \<rparr>"
  note h = first_claim
  note h2 = second_claim
  have d1: "(1700000000000 :: u64) div 86400000 = 19675" by simp
  have d2: "(1700000001000 :: u64) div 86400000 = 19675" by simp
  have e0: "earned_on fresh_state 7 19675 = 0"
    by (simp add: earned_on_def fresh_state_def init_def)
  have e1: "earned_on ?gs1 7 19675 = 1000000000" by (simp add: earned_on_def)
  from claim_pays_capped_reward [OF h] obtain p where
    "[CoinTo 7 1000000000] = [CoinTo 7 p]"
    and "unat p = min (unat (session_reward fresh_state) + 0)
             (100000000000 - unat (amount (snd (get_or_create_daily_earning fresh_state 7
                                                  (1700000000000 div 86400000)))))"
    and "unat p = min (unat (session_reward fresh_state) + 0)
             (100000000000 - earned_on fresh_state 7 (1700000000000 div 86400000))"
    by blast
  then have a: "unat (1000000000 :: u64)
       = min (unat (session_reward fresh_state) + 0)
             (100000000000 - unat (amount (snd (get_or_create_daily_earning fresh_state 7
                                                  (1700000000000 div 86400000)))))"
    and b: "unat (1000000000 :: u64)
       = min (unat (session_reward fresh_state) + 0) (100000000000 - earned_on fresh_state 7 19675)"
    unfolding d1 by simp_all
  from claim_pays_capped_reward [OF h2] obtain q where
    "[CoinTo 7 1000000000] = [CoinTo 7 q]"
    and "earned_on ?gs2 7 (1700000001000 div 86400000)
           = earned_on ?gs1 7 (1700000001000 div 86400000) + unat q"
    by blast
  then have c: "earned_on ?gs2 7 19675 = 1000000000 + unat (1000000000 :: u64)"
    unfolding d2 e1 by simp
  from h h2 a b c e0 e1 show ?thesis by blast
qed

lemma stale_record:
  assumes "daily_earnings gs u = Some e0" and "date e0 \<noteq> now div 86400000"
  shows "claim_record gs u now = \<lparr> date = now div 86400000, amount = 0, sessions = 0 \<rparr>"
  using assms by (simp add: claim_record_def get_or_create_daily_earning_def Let_def)

lemma stale_reward:
  assumes "daily_earnings gs u = Some e0" and "date e0 \<noteq> now div 86400000"
  shows "unat (final_reward gs u now) = min (unat (session_reward gs)) 100000000000"
    and "unat (session_reward gs) \<le> 100000000000 \<Longrightarrow> final_reward gs u now = session_reward gs"
proof -
  have z: "amount (claim_record gs u now) = 0" using stale_record [OF assms] by simp
  then have "amount (claim_record gs u now) < 100000000000" by simp
  from final_reward_unat [OF this]
  show "unat (final_reward gs u now) = min (unat (session_reward gs)) 100000000000"
    using z by (simp add: spec_payout_def claim_record_def Let_def)
  then show "final_reward gs u now = session_reward gs" if "unat (session_reward gs) \<le> 100000000000"
    using that by (simp add: word_unat_eq_iff)
qed

text \<open>
  Claim C8. When the user's record is of another day than the claim (day \<open>D\<close> stored,
  the claim at day \<open>D + 1\<close>), the record the claim works on is the reset one: the new
  day, amount 0, sessions 0. An accepted claim then pays \<open>min(session_reward, daily_cap)\<close>
  and leaves the record at that amount and one session, whatever the old record held.
  With a session reward within the cap, a treasury that holds it and statistics that do
  not overflow, the claim is accepted and pays the full session reward.
\<close>

theorem day_rollover_resets_counters:
  assumes "daily_earnings gs u = Some e0" and "date e0 \<noteq> now div 86400000"
  shows "snd (get_or_create_daily_earning gs u (now div 86400000))
           = \<lparr> date = now div 86400000, amount = 0, sessions = 0 \<rparr>
       \<and> (\<forall>tr' gs' out. complete_session tr gs now u = Inr (tr', gs', out) \<longrightarrow>
             (\<exists>p. out = [CoinTo u p]
                \<and> unat p = min (unat (session_reward gs)) 100000000000
                \<and> daily_earnings gs' u
                    = Some \<lparr> date = now div 86400000, amount = p, sessions = 1 \<rparr>))
       \<and> (unat (session_reward gs) \<le> 100000000000
            \<and> session_reward gs \<le> oct_balance tr
            \<and> unat (total_rewards_paid tr) + unat (session_reward gs) < 2 ^ 64
            \<and> unat (total_users_rewarded tr) + 1 < 2 ^ 64
          \<longrightarrow> (\<exists>tr' gs'. complete_session tr gs now u
                             = Inr (tr', gs', [CoinTo u (session_reward gs)])
                  \<and> daily_earnings gs' u
                      = Some \<lparr> date = now div 86400000, amount = session_reward gs,
                               sessions = 1 \<rparr>))"
proof (intro conjI allI impI)
  show "snd (get_or_create_daily_earning gs u (now div 86400000))
           = \<lparr> date = now div 86400000, amount = 0, sessions = 0 \<rparr>"
    using stale_record [OF assms] by (simp add: claim_record_def)
next
  fix tr' gs' out
  assume cs: "complete_session tr gs now u = Inr (tr', gs', out)"
  note c = complete_session_Inr [OF cs]
  have "daily_earnings gs' u
          = Some \<lparr> date = now div 86400000, amount = final_reward gs u now, sessions = 1 \<rparr>"
    using c(7) stale_record [OF assms] by simp
  with c(8) stale_reward(1) [OF assms]
  show "\<exists>p. out = [CoinTo u p]
                \<and> unat p = min (unat (session_reward gs)) 100000000000
                \<and> daily_earnings gs' u
                    = Some \<lparr> date = now div 86400000, amount = p, sessions = 1 \<rparr>"
    by blast
next
  assume h: "unat (session_reward gs) \<le> 100000000000
            \<and> session_reward gs \<le> oct_balance tr
            \<and> unat (total_rewards_paid tr) + unat (session_reward gs) < 2 ^ 64
            \<and> unat (total_users_rewarded tr) + 1 < 2 ^ 64"
  then have p: "final_reward gs u now = session_reward gs"
    using stale_reward(2) [OF assms] by blast
  show "\<exists>tr' gs'. complete_session tr gs now u
                             = Inr (tr', gs', [CoinTo u (session_reward gs)])
                  \<and> daily_earnings gs' u
                      = Some \<lparr> date = now div 86400000, amount = session_reward gs,
                               sessions = 1 \<rparr>"
    using h stale_record [OF assms]
    by (simp add: complete_session_alt p word_le_nat_alt word_less_nat_alt not_less)
qed

text \<open>
  The theorem of C8 at user 7, who has earned the whole cap in 100 sessions on day
  19675 and claims on day 19676.
\<close>

theorem day_rollover_resets_counters_witness:
  "daily_earnings exhausted_state 7
     = Some \<lparr> date = 19675, amount = 100000000000, sessions = 100 \<rparr>
   \<and> (1700086400000 :: u64) div 86400000 = 19675 + 1
   \<and> (\<exists>tr' gs'. complete_session funded_treasury exhausted_state 1700086400000 7
                    = Inr (tr', gs', [CoinTo 7 (session_reward exhausted_state)])
          \<and> daily_earnings gs' 7
               = Some \<lparr> date = 1700086400000 div 86400000,
                        amount = session_reward exhausted_state, sessions = 1 \<rparr>)
   \<and> session_reward exhausted_state = 1000000000"
proof -
  let ?e0 = "\<lparr> date = 19675, amount = 100000000000, sessions = 100 \<rparr> :: DailyEarning"
  have r: "daily_earnings exhausted_state 7 = Some ?e0" by (simp add: exhausted_state_def)
  have d: "date ?e0 \<noteq> 1700086400000 div 86400000" by simp
  have sr: "session_reward exhausted_state = 1000000000"
    by (simp add: exhausted_state_def fresh_state_def init_def)
  have c: "unat (session_reward exhausted_state) \<le> 100000000000
            \<and> session_reward exhausted_state \<le> oct_balance funded_treasury
            \<and> unat (total_rewards_paid funded_treasury) + unat (session_reward exhausted_state) < 2 ^ 64
            \<and> unat (total_users_rewarded funded_treasury) + 1 < 2 ^ 64"
    by (simp add: sr funded_treasury_def)
  from day_rollover_resets_counters [OF r d, of funded_treasury] c
  have "\<exists>tr' gs'. complete_session funded_treasury exhausted_state 1700086400000 7
                    = Inr (tr', gs', [CoinTo 7 (session_reward exhausted_state)])
          \<and> daily_earnings gs' 7
               = Some \<lparr> date = 1700086400000 div 86400000,
                        amount = session_reward exhausted_state, sessions = 1 \<rparr>"
    by blast
  with r sr show ?thesis by simp
qed

lemma execute_treasury_kept:
  assumes "execute (tr, gs) sender c = Inr ((tr', gs'), out)"
    and "\<forall>now. c \<noteq> CompleteSession now" and "\<forall>v. c \<noteq> FundTreasury v"
  shows "tr' = tr"
  using assms by (cases c) (auto simp: bind_abort_def split: sum.splits)

lemma execute_fund:
  assumes "execute (tr, gs) sender (FundTreasury v) = Inr ((tr', gs'), out)"
  shows "unat (oct_balance tr') = unat (oct_balance tr) + unat v"
    and "sender = treasury_admin_address tr"
  using assms
  by (auto simp: fund_treasury_def bind_abort_def add_u64_def unat_add_u64
      split: if_splits sum.splits)

lemma execute_claim_balance:
  assumes "execute (tr, gs) sender (CompleteSession now) = Inr ((tr', gs'), out)"
  shows "unat (oct_balance tr') + sum_list (map unat (coins_to sender out)) = unat (oct_balance tr)"
proof -
  note c = execute_claim [OF assms]
  have "unat (oct_balance tr - final_reward gs sender now) + unat (final_reward gs sender now)
      = unat (oct_balance tr)"
    using c(3) by (simp add: unat_sub word_le_nat_alt)
  then show ?thesis using c(6) c(8) by simp
qed

lemma underfunded_claim:
  assumes "unat (oct_balance tr) < spec_payout gs sender now"
  shows "\<exists>e. complete_session tr gs now sender = Inl e"
proof (cases "amount (claim_record gs sender now) < 100000000000")
  case True
  from final_reward_unat [OF True] assms
  have "oct_balance tr < final_reward gs sender now" by (simp add: word_less_nat_alt)
  then show ?thesis by (simp add: complete_session_alt)
next
  case False
  then show ?thesis by (simp add: complete_session_alt not_less)
qed

lemma underfunded_code:
  assumes "unat (oct_balance tr) < spec_payout gs sender now"
    and "sessions (snd (get_or_create_daily_earning gs sender (now div 86400000))) < 100"
  shows "complete_session tr gs now sender = Inl (Abort ETreasuryInsufficient)"
proof -
  have a: "amount (claim_record gs sender now) < 100000000000"
  proof (rule ccontr)
    assume "\<not> amount (claim_record gs sender now) < 100000000000"
    then have "100000000000 \<le> unat (amount (claim_record gs sender now))"
      by (simp add: word_less_nat_alt)
    then have "spec_payout gs sender now = 0"
      by (simp add: spec_payout_def claim_record_def Let_def)
    with assms(1) show False by simp
  qed
  from final_reward_unat [OF a] assms(1)
  have "oct_balance tr < final_reward gs sender now" by (simp add: word_less_nat_alt)
  moreover have "\<not> 100000000000 \<le> amount (claim_record gs sender now)"
    using a by (simp add: not_le)
  moreover have "\<not> 100 \<le> sessions (claim_record gs sender now)"
    using assms(2) by (simp add: not_le claim_record_def)
  ultimately show ?thesis by (simp add: complete_session_alt)
qed

text \<open>
  Claim C2. The treasury's balance is an unsigned value. Every call but
  \<open>fund_treasury\<close> leaves it no higher than it was; an accepted \<open>fund_treasury\<close> raises it
  by exactly the coin's value; an accepted \<open>complete_session\<close> lowers it by exactly the
  coin it pays, so the payout never exceeds the balance. A claim whose payout exceeds
  the balance is rejected (with \<open>ETreasuryInsufficient\<close> when the user's session limit is
  not reached), and a rejected transaction leaves both shared objects as they were and
  transfers nothing.
\<close>

theorem treasury_balance_moves:
  "(execute (tr, gs) sender c = Inr ((tr', gs'), out) \<and> (\<forall>v. c \<noteq> FundTreasury v)
      \<longrightarrow> unat (oct_balance tr') \<le> unat (oct_balance tr))
   \<and> (execute (tr, gs) sender (FundTreasury v) = Inr ((tr', gs'), out)
      \<longrightarrow> unat (oct_balance tr') = unat (oct_balance tr) + unat v)
   \<and> (execute (tr, gs) sender (CompleteSession now) = Inr ((tr', gs'), out)
      \<longrightarrow> unat (oct_balance tr') + sum_list (map unat (coins_to sender out))
            = unat (oct_balance tr))
   \<and> (unat (oct_balance tr) < spec_payout gs sender now
      \<longrightarrow> (\<exists>e. complete_session tr gs now sender = Inl e)
        \<and> transact (tr, gs) (sender, CompleteSession now) = ((tr, gs), []))
   \<and> (unat (oct_balance tr) < spec_payout gs sender now
        \<and> sessions (snd (get_or_create_daily_earning gs sender (now div 86400000))) < 100
      \<longrightarrow> complete_session tr gs now sender = Inl (Abort ETreasuryInsufficient))
   \<and> ((\<exists>e. execute (tr, gs) sender c = Inl e)
      \<longrightarrow> transact (tr, gs) (sender, c) = ((tr, gs), []))"
proof (intro conjI impI)
  assume a: "execute (tr, gs) sender c = Inr ((tr', gs'), out) \<and> (\<forall>v. c \<noteq> FundTreasury v)"
  show "unat (oct_balance tr') \<le> unat (oct_balance tr)"
  proof (cases "\<exists>now. c = CompleteSession now")
    case True
    then obtain t where "c = CompleteSession t" by blast
    with a execute_claim_balance [of tr gs sender t tr' gs' out] show ?thesis by simp
  next
    case False
    with a execute_treasury_kept [of tr gs sender c tr' gs' out] show ?thesis by simp
  qed
next
  assume "execute (tr, gs) sender (FundTreasury v) = Inr ((tr', gs'), out)"
  then show "unat (oct_balance tr') = unat (oct_balance tr) + unat v" by (rule execute_fund)
next
  assume "execute (tr, gs) sender (CompleteSession now) = Inr ((tr', gs'), out)"
  then show "unat (oct_balance tr') + sum_list (map unat (coins_to sender out))
            = unat (oct_balance tr)" by (rule execute_claim_balance)
next
  assume a: "unat (oct_balance tr) < spec_payout gs sender now"
  from underfunded_claim [OF a] show "\<exists>e. complete_session tr gs now sender = Inl e" .
  then show "transact (tr, gs) (sender, CompleteSession now) = ((tr, gs), [])"
    by (auto simp: transact_def)
next
  assume "unat (oct_balance tr) < spec_payout gs sender now
        \<and> sessions (snd (get_or_create_daily_earning gs sender (now div 86400000))) < 100"
  then show "complete_session tr gs now sender = Inl (Abort ETreasuryInsufficient)"
    using underfunded_code by blast
next
  assume "\<exists>e. execute (tr, gs) sender c = Inl e"
  then show "transact (tr, gs) (sender, c) = ((tr, gs), [])" by (auto simp: transact_def)
qed

lemma fund_example:
  "execute (fst (init 1), fresh_state) 1 (FundTreasury 5000000000)
     = Inr ((funded_treasury, fresh_state), [])"
  by (simp add: init_def fund_treasury_def add_u64_def funded_treasury_def)

lemma stranger_fund_example:
  "execute (funded_treasury, fresh_state) 7 (FundTreasury 5) = Inl (Abort ENotAuthorized)"
  by (simp add: fund_treasury_def funded_treasury_def)

lemma claim_example:
  "execute (funded_treasury, fresh_state) 7 (CompleteSession 1700000000000)
     = Inr ((\<lparr> oct_balance = 4000000000, treasury_admin_address = 1,
              total_rewards_paid = 1000000000, total_users_rewarded = 1 \<rparr>,
            fresh_state\<lparr> daily_earnings :=
              [7 \<mapsto> \<lparr> date = 19675, amount = 1000000000, sessions = 1 \<rparr>] \<rparr>),
            [CoinTo 7 1000000000])"
  by (simp add: first_claim)

lemma empty_payout: "spec_payout fresh_state 7 1700000000000 = 1000000000"
  by (simp add: spec_payout_def fresh_state_def init_def get_or_create_daily_earning_def Let_def)

text \<open>
  The theorem of C2 at the deployer funding the empty treasury, at a claim against the
  empty and against the funded treasury, and at a stranger's attempt to fund.
\<close>

theorem treasury_balance_moves_witness:
  "execute (fst (init 1), fresh_state) 1 (FundTreasury 5000000000)
     = Inr ((funded_treasury, fresh_state), [])
   \<and> unat (oct_balance funded_treasury) = unat (oct_balance (fst (init 1))) + unat (5000000000 :: u64)
   \<and> unat (oct_balance (fst (init 1))) < spec_payout fresh_state 7 1700000000000
   \<and> complete_session (fst (init 1)) fresh_state 1700000000000 7 = Inl (Abort ETreasuryInsufficient)
   \<and> transact (fst (init 1), fresh_state) (7, CompleteSession 1700000000000)
       = ((fst (init 1), fresh_state), [])
   \<and> execute (funded_treasury, fresh_state) 7 (CompleteSession 1700000000000)
     = Inr ((\<lparr> oct_balance = 4000000000, treasury_admin_address = 1,
              total_rewards_paid = 1000000000, total_users_rewarded = 1 \<rparr>,
            fresh_state\<lparr> daily_earnings :=
              [7 \<mapsto> \<lparr> date = 19675, amount = 1000000000, sessions = 1 \<rparr>] \<rparr>),
            [CoinTo 7 1000000000])
   \<and> unat (4000000000 :: u64) \<le> unat (oct_balance funded_treasury)
   \<and> execute (funded_treasury, fresh_state) 7 (FundTreasury 5) = Inl (Abort ENotAuthorized)
   \<and> transact (funded_treasury, fresh_state) (7, FundTreasury 5)
       = ((funded_treasury, fresh_state), [])"
proof -
  let ?claimed = "\<lparr> oct_balance = 4000000000, treasury_admin_address = 1,
              total_rewards_paid = 1000000000, total_users_rewarded = 1 \<rparr>"
  let ?gs1 = "fresh_state\<lparr> daily_earnings :=
              [7 \<mapsto> \<lparr> date = 19675, amount = 1000000000, sessions = 1 \<rparr>] \<rparr>"
  note fund = treasury_balance_moves
      [where tr = "fst (init 1)" and gs = fresh_state and sender = 1
         and v = 5000000000 and tr' = funded_treasury and gs' = fresh_state and out = "[]"]
  note poor = treasury_balance_moves
      [where tr = "fst (init 1)" and gs = fresh_state and sender = 7 and now = 1700000000000]
  note claim = treasury_balance_moves
      [where tr = funded_treasury and gs = fresh_state and sender = 7
         and c = "CompleteSession 1700000000000" and tr' = ?claimed and gs' = ?gs1
         and out = "[CoinTo 7 1000000000]"]
  note stranger = treasury_balance_moves
      [where tr = funded_treasury and gs = fresh_state and sender = 7 and c = "FundTreasury 5"]
  have a: "unat (oct_balance funded_treasury)
      = unat (oct_balance (fst (init 1))) + unat (5000000000 :: u64)"
    using fund fund_example by blast
  have low: "unat (oct_balance (fst (init 1))) < spec_payout fresh_state 7 1700000000000"
    by (simp add: empty_payout init_def)
  have ses: "sessions (snd (get_or_create_daily_earning fresh_state 7 (1700000000000 div 86400000))) < 100"
    by (simp add: fresh_state_def init_def get_or_create_daily_earning_def Let_def)
  have b: "complete_session (fst (init 1)) fresh_state 1700000000000 7 = Inl (Abort ETreasuryInsufficient)"
    using poor low ses by blast
  have c: "transact (fst (init 1), fresh_state) (7, CompleteSession 1700000000000)
       = ((fst (init 1), fresh_state), [])"
    using poor low by blast
  have "\<forall>v. CompleteSession 1700000000000 \<noteq> FundTreasury v" by simp
  with claim claim_example have d: "unat (oct_balance ?claimed) \<le> unat (oct_balance funded_treasury)"
    by blast
  have e: "transact (funded_treasury, fresh_state) (7, FundTreasury 5)
       = ((funded_treasury, fresh_state), [])"
    using stranger stranger_fund_example by blast
  from a low b c d e fund_example claim_example stranger_fund_example show ?thesis by simp
qed

declare mint_toys.simps [simp del]

lemma mint_toys_no_coins: "coins_to x (mint_toys i amt item_id buyer) = []"
proof (induction i amt item_id buyer rule: mint_toys.induct)
  case (1 i amt item_id buyer)
  show ?case
  proof (cases "i < amt")
    case True
    with "1" show ?thesis by (subst mint_toys.simps) simp
  next
    case False
    then show ?thesis by (subst mint_toys.simps) simp
  qed
qed

lemma unat_mul_u64: "unat a * unat b < 2 ^ 64 \<Longrightarrow> unat (a * b :: u64) = unat a * unat b"
  by (simp add: unat_mult_lem [THEN iffD1])

lemma purchase_item_Inr:
  assumes "purchase_item gs payment item_id amt sender = Inr out"
  shows "\<exists>price.
           ((1 \<le> item_id \<and> item_id \<le> 5 \<and> food_prices gs item_id = Some price)
            \<or> (6 \<le> item_id \<and> item_id \<le> 10 \<and> toy_prices gs item_id = Some price))
         \<and> unat price * unat amt \<le> unat payment
         \<and> out = CoinTo (admin_address gs) payment
                   # (if 6 \<le> item_id \<and> item_id \<le> 10 then mint_toys 0 amt item_id sender else [])"
proof -
  from assms obtain price where
    look: "(if item_id \<ge> 1 \<and> item_id \<le> 5 then table_borrow (food_prices gs) item_id
         else if item_id \<ge> 6 \<and> item_id \<le> 10 then table_borrow (toy_prices gs) item_id
         else Inl (Abort EInvalidItemId)) = Inr price"
    and rest: "bind_abort (mul_u64 price amt) (\<lambda>total_cost.
             if \<not> (payment \<ge> total_cost) then Inl (Abort EInsufficientPayment)
             else Inr (CoinTo (admin_address gs) payment
                       # (if item_id \<ge> 6 \<and> item_id \<le> 10
                          then mint_toys 0 amt item_id sender else []))) = Inr out"
    unfolding purchase_item_def Let_def
    by (cases "if item_id \<ge> 1 \<and> item_id \<le> 5 then table_borrow (food_prices gs) item_id
         else if item_id \<ge> 6 \<and> item_id \<le> 10 then table_borrow (toy_prices gs) item_id
         else Inl (Abort EInvalidItemId)") simp_all
  from look have p: "(1 \<le> item_id \<and> item_id \<le> 5 \<and> food_prices gs item_id = Some price)
            \<or> (6 \<le> item_id \<and> item_id \<le> 10 \<and> toy_prices gs item_id = Some price)"
    by (auto simp: table_borrow_def split: if_splits option.splits)
  from rest have m: "unat price * unat amt < 2 ^ 64" and le: "price * amt \<le> payment"
    and out: "out = CoinTo (admin_address gs) payment
                   # (if 6 \<le> item_id \<and> item_id \<le> 10 then mint_toys 0 amt item_id sender else [])"
    by (auto simp: mul_u64_def split: if_splits)
  from le have "unat (price * amt) \<le> unat payment" by (simp add: word_le_nat_alt)
  with m have "unat price * unat amt \<le> unat payment" by (simp add: unat_mul_u64)
  with p out show ?thesis by blast
qed

lemma purchase_cat_Inr:
  assumes "purchase_cat gs payment ct sender = Inr out"
  shows "\<exists>price. cat_prices gs ct = Some price \<and> unat price \<le> unat payment
         \<and> out = [CoinTo (admin_address gs) payment, CatTo sender (mint ct)]"
  using assms
  by (auto simp: purchase_cat_def Let_def table_borrow_def bind_abort_def word_le_nat_alt
      split: option.splits if_splits)

lemma execute_admin_fixed:
  assumes "execute (tr, gs) sender c = Inr ((tr', gs'), out)"
  shows "admin_address gs' = admin_address gs"
proof (cases "\<exists>now. c = CompleteSession now")
  case True
  then obtain now where "c = CompleteSession now" by blast
  with execute_claim(7) [of tr gs sender now tr' gs' out] assms show ?thesis by simp
next
  case False
  with assms show ?thesis
    by (cases c)
       (auto simp: bind_abort_def admin_set_session_reward_def admin_set_item_price_def
          split: sum.splits if_splits)
qed

text \<open>
  Claim C9 says that a purchase requires a payment of at least the price and sends the
  coin to the burn destination. With quantity 0 a payment of 5 units buys "fish", whose
  price is 1 000 000 000; and the coin goes to \<open>admin_address\<close> (here 1), not to
  \<open>burn_address\<close> (0).
\<close>

theorem purchase_counterexample:
  "food_prices fresh_state 1 = Some 1000000000
   \<and> purchase_item fresh_state 5 1 0 7 = Inr [CoinTo 1 5]
   \<and> unat (5 :: u64) < unat (1000000000 :: u64)
   \<and> admin_address fresh_state = 1
   \<and> burn_address fresh_state = 0"
  by (simp add: fresh_state_def init_def purchase_item_def table_borrow_def mul_u64_def Let_def
      word_le_nat_alt)

text \<open>
  Claim C9, as the code has it. An accepted \<open>purchase_item\<close> has a price for the item
  in the table its id selects and a payment of at least price times quantity (so at
  least the price when the quantity is not 0); an accepted \<open>purchase_cat\<close> has a payment
  of at least the price of the species. Either hands the whole payment coin, excess
  included, to \<open>game_state.admin_address\<close>, and no coin to anyone else. Neither changes
  the treasury or the game state, and no call ever changes \<open>admin_address\<close>.
\<close>

theorem purchases_pay_the_admin_vault:
  "(purchase_item gs payment item_id amt sender = Inr out \<longrightarrow>
      (\<exists>price.
           ((1 \<le> item_id \<and> item_id \<le> 5 \<and> food_prices gs item_id = Some price)
            \<or> (6 \<le> item_id \<and> item_id \<le> 10 \<and> toy_prices gs item_id = Some price))
         \<and> unat price * unat amt \<le> unat payment
         \<and> (1 \<le> unat amt \<longrightarrow> unat price \<le> unat payment))
      \<and> out = CoinTo (admin_address gs) payment
                # (if 6 \<le> item_id \<and> item_id \<le> 10 then mint_toys 0 amt item_id sender else [])
      \<and> coins_to (admin_address gs) out = [payment]
      \<and> (x \<noteq> admin_address gs \<longrightarrow> coins_to x out = []))
   \<and> (purchase_cat gs payment ct sender = Inr out \<longrightarrow>
      (\<exists>price. cat_prices gs ct = Some price \<and> unat price \<le> unat payment)
      \<and> out = [CoinTo (admin_address gs) payment, CatTo sender (mint ct)])
   \<and> (execute (tr, gs) sender (PurchaseItem payment item_id amt) = Inr ((tr', gs'), out)
      \<longrightarrow> tr' = tr \<and> gs' = gs)
   \<and> (execute (tr, gs) sender (PurchaseCat payment ct) = Inr ((tr', gs'), out)
      \<longrightarrow> tr' = tr \<and> gs' = gs)
   \<and> (execute (tr, gs) sender c = Inr ((tr', gs'), out)
      \<longrightarrow> admin_address gs' = admin_address gs)"
proof (intro conjI impI)
  assume a: "purchase_item gs payment item_id amt sender = Inr out"
  from purchase_item_Inr [OF a] obtain price where
    p: "(1 \<le> item_id \<and> item_id \<le> 5 \<and> food_prices gs item_id = Some price)
            \<or> (6 \<le> item_id \<and> item_id \<le> 10 \<and> toy_prices gs item_id = Some price)"
    and le: "unat price * unat amt \<le> unat payment"
    and out: "out = CoinTo (admin_address gs) payment
                # (if 6 \<le> item_id \<and> item_id \<le> 10 then mint_toys 0 amt item_id sender else [])"
    by blast
  have "1 \<le> unat amt \<longrightarrow> unat price \<le> unat payment"
  proof
    assume "1 \<le> unat amt"
    then have "unat price * 1 \<le> unat price * unat amt" by (rule mult_le_mono2)
    then have "unat price * 1 \<le> unat payment" using le by (rule order_trans)
    then show "unat price \<le> unat payment" by simp
  qed
  with p le show "\<exists>price.
           ((1 \<le> item_id \<and> item_id \<le> 5 \<and> food_prices gs item_id = Some price)
            \<or> (6 \<le> item_id \<and> item_id \<le> 10 \<and> toy_prices gs item_id = Some price))
         \<and> unat price * unat amt \<le> unat payment
         \<and> (1 \<le> unat amt \<longrightarrow> unat price \<le> unat payment)" by blast
  show "out = CoinTo (admin_address gs) payment
                # (if 6 \<le> item_id \<and> item_id \<le> 10 then mint_toys 0 amt item_id sender else [])"
    by (rule out)
  show "coins_to (admin_address gs) out = [payment]"
    unfolding out by (simp add: mint_toys_no_coins)
  show "coins_to x out = []" if "x \<noteq> admin_address gs"
    unfolding out using that by (simp add: mint_toys_no_coins)
next
  assume a: "purchase_cat gs payment ct sender = Inr out"
  from purchase_cat_Inr [OF a]
  show "\<exists>price. cat_prices gs ct = Some price \<and> unat price \<le> unat payment"
    and "out = [CoinTo (admin_address gs) payment, CatTo sender (mint ct)]" by blast+
next
  assume "execute (tr, gs) sender (PurchaseItem payment item_id amt) = Inr ((tr', gs'), out)"
  then show "tr' = tr" "gs' = gs" by (auto simp: bind_abort_def split: sum.splits)
next
  assume "execute (tr, gs) sender (PurchaseCat payment ct) = Inr ((tr', gs'), out)"
  then show "tr' = tr" "gs' = gs" by (auto simp: bind_abort_def split: sum.splits)
next
  assume "execute (tr, gs) sender c = Inr ((tr', gs'), out)"
  then show "admin_address gs' = admin_address gs" by (rule execute_admin_fixed)
qed

lemma two_toys:
  "mint_toys 0 2 7 9 = [ToyTo 9 \<lparr> toy_item_id = 7, happiness_value = 15 \<rparr>,
                        ToyTo 9 \<lparr> toy_item_id = 7, happiness_value = 15 \<rparr>]"
  by (simp add: mint_toys.simps mint_toy_def get_toy_happiness_value_def)

lemma toy_purchase_example:
  "purchase_item fresh_state 40 7 2 9
     = Inr [CoinTo 1 40, ToyTo 9 \<lparr> toy_item_id = 7, happiness_value = 15 \<rparr>,
            ToyTo 9 \<lparr> toy_item_id = 7, happiness_value = 15 \<rparr>]"
  by (simp add: fresh_state_def init_def purchase_item_def table_borrow_def mul_u64_def Let_def
      two_toys)

lemma cat_purchase_example:
  "purchase_cat fresh_state 60 1 9 = Inr [CoinTo 1 60, CatTo 9 (mint 1)]"
  by (simp add: fresh_state_def init_def purchase_cat_def table_borrow_def Let_def)

text \<open>
  The theorem of C9 at the purchase of two yarn toys for 40 units and of a black cat
  for 60 units.
\<close>

theorem purchases_pay_the_admin_vault_witness:
  "purchase_item fresh_state 40 7 2 9
     = Inr [CoinTo 1 40, ToyTo 9 \<lparr> toy_item_id = 7, happiness_value = 15 \<rparr>,
            ToyTo 9 \<lparr> toy_item_id = 7, happiness_value = 15 \<rparr>]
   \<and> coins_to (admin_address fresh_state)
        [CoinTo 1 40, ToyTo 9 \<lparr> toy_item_id = 7, happiness_value = 15 \<rparr>,
         ToyTo 9 \<lparr> toy_item_id = 7, happiness_value = 15 \<rparr>] = [40]
   \<and> (\<exists>price. toy_prices fresh_state 7 = Some price \<and> unat price * unat (2 :: u64) \<le> unat (40 :: u64))
   \<and> purchase_cat fresh_state 60 1 9 = Inr [CoinTo 1 60, CatTo 9 (mint 1)]
   \<and> (\<exists>price. cat_prices fresh_state 1 = Some price \<and> unat price \<le> unat (60 :: u64))"
proof -
  let ?out = "[CoinTo 1 40, ToyTo 9 \<lparr> toy_item_id = 7, happiness_value = 15 \<rparr>,
         ToyTo 9 \<lparr> toy_item_id = 7, happiness_value = 15 \<rparr>]"
  note toy = purchases_pay_the_admin_vault
      [where gs = fresh_state and payment = 40 and item_id = 7 and amt = 2 and sender = 9
         and out = ?out]
  note cat = purchases_pay_the_admin_vault
      [where gs = fresh_state and payment = 60 and ct = 1 and sender = 9
         and out = "[CoinTo 1 60, CatTo 9 (mint 1)]"]
  have not_food: "\<not> ((1 :: u8) \<le> 7 \<and> (7 :: u8) \<le> 5)" by simp
  from toy toy_purchase_example have
    "(\<exists>price.
           ((1 \<le> (7 :: u8) \<and> (7 :: u8) \<le> 5 \<and> food_prices fresh_state 7 = Some price)
            \<or> (6 \<le> (7 :: u8) \<and> (7 :: u8) \<le> 10 \<and> toy_prices fresh_state 7 = Some price))
         \<and> unat price * unat (2 :: u64) \<le> unat (40 :: u64)
         \<and> (1 \<le> unat (2 :: u64) \<longrightarrow> unat price \<le> unat (40 :: u64)))"
    and a: "coins_to (admin_address fresh_state) ?out = [40]"
    by blast+
  then have b: "\<exists>price. toy_prices fresh_state 7 = Some price
      \<and> unat price * unat (2 :: u64) \<le> unat (40 :: u64)"
    using not_food by blast
  from cat cat_purchase_example
  have c: "\<exists>price. cat_prices fresh_state 1 = Some price \<and> unat price \<le> unat (60 :: u64)"
    by blast
  from a b c toy_purchase_example cat_purchase_example show ?thesis by blast
qed

end
